theory Spec2Isabelle
  imports Complex_Main "HOL-Library.Word"
begin

section \<open>The fftokens connector plugin (internal/tokens/fftokens/fftokens.go)\<close>

text \<open>
  A shallow embedding of the token connector plugin: the four event handlers, the
  websocket event loop and the six REST operations. Everything the plugin does to the
  outside (callbacks into the node, frames sent on the websocket, HTTP requests, log
  lines) is recorded as an \<open>action\<close>; every function returns the list of actions it
  performed, in order, next to its Go return values. What the outside answers (the error
  a callback returns, the result of a send, the HTTP response, the clock) is a function
  of the actions performed so far, so that an answer may depend on the whole history.
\<close>

subsection \<open>Data\<close>

text \<open>\<open>interface{}\<close> values as \<open>encoding/json\<close> decodes them.\<close>

datatype json =
    JNull
  | JBool bool
  | JNumber real
  | JString string
  | JArray "json list"
  | JObject "string \<Rightarrow> json option"

text \<open>\<open>fftypes.JSONObject\<close> is \<open>map[string]interface{}\<close>; a nil map reads as the empty one.\<close>

type_synonym JSONObject = "string \<Rightarrow> json option"

type_synonym UUID = "128 word"
type_synonym Bytes32 = "256 word"
type_synonym FFTime = int

text \<open>\<open>fftypes.TransactionRef\<close>; the identifier is a pointer, nil is \<open>None\<close>.\<close>

record TransactionRef =
  ref_ID :: "UUID option"
  ref_Type :: string

text \<open>The struct \<open>tokenData\<close>: what the plugin serializes into the \<open>data\<close> string of a request.\<close>

record tokenData =
  td_TX :: "UUID option"
  td_TXType :: string
  td_Message :: "UUID option"
  td_MessageHash :: "Bytes32 option"

definition zero_tokenData :: tokenData where
  "zero_tokenData = \<lparr>td_TX = None, td_TXType = [], td_Message = None, td_MessageHash = None\<rparr>"

text \<open>\<open>blockchain.Event\<close>, a struct value (not a pointer) inside the three records below.\<close>

record blockchain_Event =
  ev_ProtocolID :: string
  ev_BlockchainTXID :: string
  ev_Source :: string
  ev_Name :: string
  ev_Output :: JSONObject
  ev_Location :: string
  ev_Signature :: string
  ev_Info :: JSONObject
  ev_Timestamp :: "FFTime option"

definition zero_Event :: blockchain_Event where
  "zero_Event = \<lparr>ev_ProtocolID = [], ev_BlockchainTXID = [], ev_Source = [], ev_Name = [],
     ev_Output = Map.empty, ev_Location = [], ev_Signature = [], ev_Info = Map.empty,
     ev_Timestamp = None\<rparr>"

text \<open>\<open>fftypes.TokenPool\<close>, the argument of the pool operations (the fields the plugin reads).\<close>

record fftypes_TokenPool =
  p_TX :: TransactionRef
  p_Type :: string
  p_Key :: string
  p_Config :: JSONObject
  p_Name :: string
  p_Symbol :: string
  p_Locator :: string

text \<open>\<open>tokens.TokenPool\<close>, the record handed to the pool-created callback.\<close>

record tokens_TokenPool =
  tp_Type :: string
  tp_PoolLocator :: string
  tp_TX :: TransactionRef
  tp_Connector :: string
  tp_Standard :: string
  tp_Symbol :: string
  tp_Info :: JSONObject
  tp_Event :: blockchain_Event

datatype TokenTransferType =
  TokenTransferTypeMint | TokenTransferTypeBurn | TokenTransferTypeTransfer

text \<open>\<open>fftypes.TokenTransfer\<close>; the amount is an \<open>FFBigInt\<close>.\<close>

record fftypes_TokenTransfer =
  tt_Type :: TokenTransferType
  tt_TokenIndex :: string
  tt_URI :: string
  tt_Connector :: string
  tt_From :: string
  tt_To :: string
  tt_Amount :: int
  tt_Subject :: string
  tt_Key :: string
  tt_Message :: "UUID option"
  tt_MessageHash :: "Bytes32 option"
  tt_TX :: TransactionRef

record tokens_TokenTransfer =
  xfer_PoolLocator :: string
  xfer_TokenTransfer :: fftypes_TokenTransfer
  xfer_Event :: blockchain_Event

record fftypes_TokenApproval =
  ta_Connector :: string
  ta_Key :: string
  ta_Operator :: string
  ta_Approved :: bool
  ta_Subject :: string
  ta_TX :: TransactionRef
  ta_Config :: JSONObject

record tokens_TokenApproval =
  appr_PoolLocator :: string
  appr_TokenApproval :: fftypes_TokenApproval
  appr_Event :: blockchain_Event

datatype OpStatus = OpStatusSucceeded | OpStatusFailed

text \<open>The inbound websocket frame \<open>wsEvent\<close> and its event kinds.\<close>

record wsEvent =
  ws_Event :: string
  ws_ID :: string
  ws_Data :: JSONObject

definition messageReceipt :: string where "messageReceipt = ''receipt''"
definition messageTokenPool :: string where "messageTokenPool = ''token-pool''"
definition messageTokenMint :: string where "messageTokenMint = ''token-mint''"
definition messageTokenBurn :: string where "messageTokenBurn = ''token-burn''"
definition messageTokenTransfer :: string where "messageTokenTransfer = ''token-transfer''"
definition messageTokenApproval :: string where "messageTokenApproval = ''token-approval''"

text \<open>
  The request bodies, one constructor per struct, the fields in the order of the struct:
  \<open>createPool\<close> (Type, RequestID, Signer, Data, Config, Name, Symbol),
  \<open>activatePool\<close> (PoolLocator, Config, RequestID),
  \<open>mintTokens\<close> (PoolLocator, TokenIndex, To, Amount, RequestID, Signer, Data),
  \<open>burnTokens\<close> (PoolLocator, TokenIndex, From, Amount, RequestID, Signer, Data),
  \<open>transferTokens\<close> (PoolLocator, TokenIndex, From, To, Amount, RequestID, Signer, Data),
  \<open>tokenApproval\<close> (Signer, Operator, Approved, PoolLocator, RequestID, Data, Config).
\<close>

datatype request =
    createPool string string string string JSONObject string string
  | activatePool string JSONObject string
  | mintTokens string string string string string string string
  | burnTokens string string string string string string string
  | transferTokens string string string string string string string string
  | tokenApproval string string bool string string string JSONObject

text \<open>The HTTP response as the plugin reads it: \<open>res.StatusCode()\<close> and \<open>res.Body()\<close>.\<close>

record response =
  StatusCode :: int
  Body :: string

text \<open>\<open>resty\<close>'s \<open>IsSuccess\<close>: a status code from 200 to 299.\<close>

definition IsSuccess :: "response \<Rightarrow> bool" where
  "IsSuccess res = (199 < StatusCode res \<and> StatusCode res < 300)"

text \<open>
  Errors. \<open>Failure\<close> is an error raised outside the plugin (by a callback, by the websocket
  send, by the HTTP transport); the other two are the errors the plugin builds:
  \<open>ffresty.WrapRestErr(ctx, res, err, MsgTokensRESTErr)\<close> and
  \<open>i18n.WrapError(ctx, err, MsgJSONObjectParseFailed, body)\<close>.
\<close>

datatype error =
    Failure string
  | TokensRESTErr response "error option"
  | JSONObjectParseFailed string

datatype level = LDebug | LInfo | LError

text \<open>
  What the plugin does to the outside. A log line carries its level and the text of its
  format string (the first line of it, quote characters left out).
\<close>

datatype action =
    Log level string
  | WsReceive string
  | WsSend string
  | WsClose
  | HttpPost string request
  | CallTokenOpUpdate UUID OpStatus string string JSONObject
  | CallTokenPoolCreated tokens_TokenPool
  | CallTokensTransferred tokens_TokenTransfer
  | CallTokensApproved tokens_TokenApproval

fun is_callback :: "action \<Rightarrow> bool" where
  "is_callback (CallTokenOpUpdate _ _ _ _ _) = True"
| "is_callback (CallTokenPoolCreated _) = True"
| "is_callback (CallTokensTransferred _) = True"
| "is_callback (CallTokensApproved _) = True"
| "is_callback _ = False"

fun is_send :: "action \<Rightarrow> bool" where
  "is_send (WsSend _) = True"
| "is_send _ = False"

fun is_log :: "action \<Rightarrow> bool" where
  "is_log (Log _ _) = True"
| "is_log _ = False"

subsection \<open>What the plugin calls\<close>

text \<open>
  The functions of other packages that the plugin calls, taken as parameters: the
  \<open>JSONObject\<close> accessors, \<open>ParseUUID\<close>, \<open>UUID.String\<close>, \<open>ParseTimeString\<close> and \<open>Now\<close> of
  \<open>fftypes\<close>, and \<open>json.Marshal\<close> and \<open>json.Unmarshal\<close> at each type they are used at
  (\<open>None\<close> is a decoding error). Every theorem about the handlers holds for all of them.
\<close>

record lib =
  GetString :: "JSONObject \<Rightarrow> string \<Rightarrow> string"
  GetBool :: "JSONObject \<Rightarrow> string \<Rightarrow> bool"
  GetObject :: "JSONObject \<Rightarrow> string \<Rightarrow> JSONObject"
  ParseUUID :: "string \<Rightarrow> UUID option"
  UUID_String :: "UUID option \<Rightarrow> string"
  ParseTimeString :: "string \<Rightarrow> FFTime option"
  Now :: "action list \<Rightarrow> FFTime"
  Marshal_tokenData :: "tokenData \<Rightarrow> string"
  Unmarshal_tokenData :: "string \<Rightarrow> tokenData option"
  Marshal_JSONObject :: "JSONObject \<Rightarrow> string"
  Unmarshal_JSONObject :: "string \<Rightarrow> JSONObject option"
  Unmarshal_wsEvent :: "string \<Rightarrow> wsEvent option"
  BigInt_String :: "int \<Rightarrow> string"

text \<open>
  The three callbacks of \<open>tokens.Callbacks\<close> that return an error; the argument list is the
  history of actions before the call. \<open>TokenOpUpdate\<close> returns nothing the plugin reads.
\<close>

record Callbacks =
  TokenPoolCreated :: "action list \<Rightarrow> tokens_TokenPool \<Rightarrow> error option"
  TokensTransferred :: "action list \<Rightarrow> tokens_TokenTransfer \<Rightarrow> error option"
  TokensApproved :: "action list \<Rightarrow> tokens_TokenApproval \<Rightarrow> error option"

text \<open>
  The struct \<open>FFTokens\<close>: the callbacks, the configured name, the HTTP client (what a POST
  of a body to a path returns) and the websocket connection (what a send returns).
\<close>

record FFTokens =
  callbacks :: Callbacks
  configuredName :: string
  client_Post :: "action list \<Rightarrow> string \<Rightarrow> request \<Rightarrow> response \<times> error option"
  wsconn_Send :: "action list \<Rightarrow> string \<Rightarrow> error option"

definition Name :: string where
  "Name = ''fftokens''"

text \<open>
  Modelled from the spec: the default transaction kinds of \<open>fftypes\<close>
  (\<open>TransactionTypeTokenPool\<close>, \<open>TransactionTypeTokenTransfer\<close>,
  \<open>TransactionTypeTokenApproval\<close>), whose declarations are not part of the sources at
  hand; section 4.1 of the specification names them "token-pool", "token-transfer" and
  "token-approval".
\<close>

definition TransactionTypeTokenPool :: string where
  "TransactionTypeTokenPool = ''token-pool''"

definition TransactionTypeTokenTransfer :: string where
  "TransactionTypeTokenTransfer = ''token-transfer''"

definition TransactionTypeTokenApproval :: string where
  "TransactionTypeTokenApproval = ''token-approval''"

text \<open>
  \<open>big.Int.SetString(value, 10)\<close> of Go's standard library: an optional sign, then at least
  one decimal digit, and nothing else; \<open>None\<close> is \<open>ok = false\<close>.
\<close>

definition is_digit10 :: "char \<Rightarrow> bool" where
  "is_digit10 c = (48 \<le> (of_char c :: nat) \<and> (of_char c :: nat) \<le> 57)"

definition digits10 :: "string \<Rightarrow> nat" where
  "digits10 ds = foldl (\<lambda>a c. 10 * a + ((of_char c :: nat) - 48)) 0 ds"

definition SetString10 :: "string \<Rightarrow> int option" where
  "SetString10 s =
     (let neg = (s \<noteq> [] \<and> hd s = CHR ''-'');
          ds = (if s \<noteq> [] \<and> (hd s = CHR ''-'' \<or> hd s = CHR ''+'') then tl s else s)
      in if ds = [] \<or> \<not> list_all is_digit10 ds then None
         else Some (if neg then - int (digits10 ds) else int (digits10 ds)))"

subsection \<open>The event handlers\<close>

definition handleReceipt :: "lib \<Rightarrow> JSONObject \<Rightarrow> action list" where
  "handleReceipt lb data =
     (let requestID = GetString lb data ''id'';
          success = GetBool lb data ''success'';
          message = GetString lb data ''message'';
          transactionHash = GetString lb data ''transactionHash''
      in if requestID = [] then
           [Log LError ''Reply cannot be processed - missing fields: %+v'']
         else
           (case ParseUUID lb requestID of
              None \<Rightarrow> [Log LError ''Reply cannot be processed - bad ID: %+v'']
            | Some opID \<Rightarrow>
                (let replyType = (if \<not> success then OpStatusFailed else OpStatusSucceeded)
                 in [Log LInfo ''Tokens %s reply: request=%s message=%s'',
                     CallTokenOpUpdate opID replyType transactionHash message data])))"

definition handleTokenPoolCreate ::
  "lib \<Rightarrow> FFTokens \<Rightarrow> JSONObject \<Rightarrow> action list \<Rightarrow> error option \<times> action list" where
  "handleTokenPoolCreate lb ft data hist =
     (let tokenType = GetString lb data ''type'';
          poolLocator = GetString lb data ''poolLocator'';
          standard = GetString lb data ''standard'';
          symbol = GetString lb data ''symbol'';
          info = GetObject lb data ''info'';
          blockchainEvent = GetObject lb data ''blockchain'';
          blockchainID = GetString lb blockchainEvent ''id'';
          blockchainInfo = GetObject lb blockchainEvent ''info'';
          txHash = GetString lb blockchainInfo ''transactionHash'';
          timestampStr = GetString lb blockchainEvent ''timestamp'';
          timestamp = (case ParseTimeString lb timestampStr of
                         Some t \<Rightarrow> t | None \<Rightarrow> Now lb hist)
      in if tokenType = [] \<or> poolLocator = [] then
           (None, [Log LError ''TokenPool event is not valid - missing data: %+v''])
         else
           (let poolDataString = GetString lb data ''data'';
                parsed = Unmarshal_tokenData lb poolDataString;
                logs = (if parsed = None then
                          [Log LInfo ''TokenPool event data could not be parsed - continuing anyway (%s): %+v'']
                        else []);
                poolData = (case parsed of None \<Rightarrow> zero_tokenData | Some d \<Rightarrow> d);
                txType = (if td_TXType poolData = [] then TransactionTypeTokenPool
                          else td_TXType poolData);
                pool = \<lparr>tp_Type = tokenType,
                        tp_PoolLocator = poolLocator,
                        tp_TX = \<lparr>ref_ID = td_TX poolData, ref_Type = txType\<rparr>,
                        tp_Connector = configuredName ft,
                        tp_Standard = standard,
                        tp_Symbol = symbol,
                        tp_Info = info,
                        tp_Event = zero_Event\<rparr>;
                pool = (if blockchainID \<noteq> [] \<or> txHash \<noteq> [] then
                          pool\<lparr>tp_Event :=
                            \<lparr>ev_ProtocolID = blockchainID,
                             ev_BlockchainTXID = txHash,
                             ev_Source = Name @ '':'' @ configuredName ft,
                             ev_Name = GetString lb blockchainEvent ''name'',
                             ev_Output = GetObject lb blockchainEvent ''output'',
                             ev_Location = GetString lb blockchainEvent ''location'',
                             ev_Signature = GetString lb blockchainEvent ''signature'',
                             ev_Info = blockchainInfo,
                             ev_Timestamp = Some timestamp\<rparr>\<rparr>
                        else pool)
            in (TokenPoolCreated (callbacks ft) (hist @ logs) pool,
                logs @ [CallTokenPoolCreated pool])))"

definition handleTokenTransfer ::
  "lib \<Rightarrow> FFTokens \<Rightarrow> TokenTransferType \<Rightarrow> JSONObject \<Rightarrow> action list
     \<Rightarrow> error option \<times> action list" where
  "handleTokenTransfer lb ft t data hist =
     (let subject = GetString lb data ''subject'';
          poolLocator = GetString lb data ''poolLocator'';
          signerAddress = GetString lb data ''signer'';
          fromAddress = GetString lb data ''from'';
          toAddress = GetString lb data ''to'';
          value = GetString lb data ''amount'';
          tokenIndex = GetString lb data ''tokenIndex'';
          uri = GetString lb data ''uri'';
          blockchainEvent = GetObject lb data ''blockchain'';
          blockchainID = GetString lb blockchainEvent ''id'';
          blockchainInfo = GetObject lb blockchainEvent ''info'';
          txHash = GetString lb blockchainInfo ''transactionHash'';
          timestampStr = GetString lb blockchainEvent ''timestamp'';
          timestamp = (case ParseTimeString lb timestampStr of
                         Some ts \<Rightarrow> ts | None \<Rightarrow> Now lb hist)
      in if subject = [] \<or>
            poolLocator = [] \<or>
            signerAddress = [] \<or>
            value = [] \<or>
            (t \<noteq> TokenTransferTypeMint \<and> fromAddress = []) \<or>
            (t \<noteq> TokenTransferTypeBurn \<and> toAddress = []) then
           (None, [Log LError ''%s event is not valid - missing data: %+v''])
         else
           (let transferDataString = GetString lb data ''data'';
                parsed = Unmarshal_tokenData lb transferDataString;
                logs = (if parsed = None then
                          [Log LInfo ''%s event data could not be parsed - continuing anyway (%s): %+v'']
                        else []);
                transferData = (case parsed of None \<Rightarrow> zero_tokenData | Some d \<Rightarrow> d)
            in case SetString10 value of
                 None \<Rightarrow>
                   (None, logs @ [Log LError ''%s event is not valid - invalid amount: %+v''])
               | Some amount \<Rightarrow>
                   (let txType = (if td_TXType transferData = [] then TransactionTypeTokenTransfer
                                  else td_TXType transferData);
                        transfer =
                          \<lparr>xfer_PoolLocator = poolLocator,
                           xfer_TokenTransfer =
                             \<lparr>tt_Type = t,
                              tt_TokenIndex = tokenIndex,
                              tt_URI = uri,
                              tt_Connector = configuredName ft,
                              tt_From = fromAddress,
                              tt_To = toAddress,
                              tt_Amount = amount,
                              tt_Subject = subject,
                              tt_Key = signerAddress,
                              tt_Message = td_Message transferData,
                              tt_MessageHash = td_MessageHash transferData,
                              tt_TX = \<lparr>ref_ID = td_TX transferData, ref_Type = txType\<rparr>\<rparr>,
                           xfer_Event =
                             \<lparr>ev_ProtocolID = blockchainID,
                              ev_BlockchainTXID = txHash,
                              ev_Source = Name @ '':'' @ configuredName ft,
                              ev_Name = GetString lb blockchainEvent ''name'',
                              ev_Output = GetObject lb blockchainEvent ''output'',
                              ev_Location = GetString lb blockchainEvent ''location'',
                              ev_Signature = GetString lb blockchainEvent ''signature'',
                              ev_Info = blockchainInfo,
                              ev_Timestamp = Some timestamp\<rparr>\<rparr>
                    in (TokensTransferred (callbacks ft) (hist @ logs) transfer,
                        logs @ [CallTokensTransferred transfer]))))"

definition handleTokenApproval ::
  "lib \<Rightarrow> FFTokens \<Rightarrow> JSONObject \<Rightarrow> action list \<Rightarrow> error option \<times> action list" where
  "handleTokenApproval lb ft data hist =
     (let subject = GetString lb data ''subject'';
          signerAddress = GetString lb data ''signer'';
          poolLocator = GetString lb data ''poolLocator'';
          operatorAddress = GetString lb data ''operator'';
          approved = GetBool lb data ''approved'';
          blockchainEvent = GetObject lb data ''blockchain'';
          blockchainID = GetString lb blockchainEvent ''id'';
          blockchainInfo = GetObject lb blockchainEvent ''info'';
          txHash = GetString lb blockchainInfo ''transactionHash'';
          timestampStr = GetString lb blockchainEvent ''timestamp'';
          timestamp = (case ParseTimeString lb timestampStr of
                         Some ts \<Rightarrow> ts | None \<Rightarrow> Now lb hist)
      in if subject = [] \<or>
            poolLocator = [] \<or>
            signerAddress = [] \<or>
            operatorAddress = [] then
           (None, [Log LError ''Approval event is not valid - missing data: %+v''])
         else
           (let approvalDataString = GetString lb data ''data'';
                parsed = Unmarshal_tokenData lb approvalDataString;
                logs = (if parsed = None then
                          [Log LInfo ''TokenApproval event data could not be parsed - continuing anyway (%s): %+v'']
                        else []);
                transferData = (case parsed of None \<Rightarrow> zero_tokenData | Some d \<Rightarrow> d);
                txType = (if td_TXType transferData = [] then TransactionTypeTokenApproval
                          else td_TXType transferData);
                approval =
                  \<lparr>appr_PoolLocator = poolLocator,
                   appr_TokenApproval =
                     \<lparr>ta_Connector = configuredName ft,
                      ta_Key = signerAddress,
                      ta_Operator = operatorAddress,
                      ta_Approved = approved,
                      ta_Subject = subject,
                      ta_TX = \<lparr>ref_ID = td_TX transferData, ref_Type = txType\<rparr>,
                      ta_Config = Map.empty\<rparr>,
                   appr_Event =
                     \<lparr>ev_ProtocolID = blockchainID,
                      ev_BlockchainTXID = txHash,
                      ev_Source = Name @ '':'' @ configuredName ft,
                      ev_Name = GetString lb blockchainEvent ''name'',
                      ev_Output = GetObject lb blockchainEvent ''output'',
                      ev_Location = GetString lb blockchainEvent ''location'',
                      ev_Signature = GetString lb blockchainEvent ''signature'',
                      ev_Info = blockchainInfo,
                      ev_Timestamp = Some timestamp\<rparr>\<rparr>
            in (TokensApproved (callbacks ft) (hist @ logs) approval,
                logs @ [CallTokensApproved approval])))"

subsection \<open>The event loop\<close>

text \<open>
  The acknowledgement \<open>{"event": "ack", "data": {"id": id}}\<close>, as the \<open>JSONObject\<close> that
  the loop marshals.
\<close>

definition ack_frame :: "string \<Rightarrow> JSONObject" where
  "ack_frame msgID =
     [''event'' \<mapsto> JString ''ack'',
      ''data'' \<mapsto> JObject [''id'' \<mapsto> JString msgID]]"

text \<open>The \<open>switch\<close> on \<open>msg.Event\<close>: the error it leaves in \<open>err\<close>, and the actions.\<close>

definition dispatch ::
  "lib \<Rightarrow> FFTokens \<Rightarrow> wsEvent \<Rightarrow> action list \<Rightarrow> error option \<times> action list" where
  "dispatch lb ft msg hist =
     (if ws_Event msg = messageReceipt then
        (None, handleReceipt lb (ws_Data msg))
      else if ws_Event msg = messageTokenPool then
        handleTokenPoolCreate lb ft (ws_Data msg) hist
      else if ws_Event msg = messageTokenMint then
        handleTokenTransfer lb ft TokenTransferTypeMint (ws_Data msg) hist
      else if ws_Event msg = messageTokenBurn then
        handleTokenTransfer lb ft TokenTransferTypeBurn (ws_Data msg) hist
      else if ws_Event msg = messageTokenTransfer then
        handleTokenTransfer lb ft TokenTransferTypeTransfer (ws_Data msg) hist
      else if ws_Event msg = messageTokenApproval then
        handleTokenApproval lb ft (ws_Data msg) hist
      else
        (None, [Log LError ''Message unexpected: %s'']))"

text \<open>
  One iteration of the \<open>for\<close> loop on a received message; \<open>hist\<close> is the history before
  it. The result is whether the loop returns, and the actions of the iteration.
\<close>

definition eventLoop_message ::
  "lib \<Rightarrow> FFTokens \<Rightarrow> string \<Rightarrow> action list \<Rightarrow> bool \<times> action list" where
  "eventLoop_message lb ft msgBytes hist =
     (case Unmarshal_wsEvent lb msgBytes of
        None \<Rightarrow> (False, [Log LError ''Message cannot be parsed as JSON: %s''])
      | Some msg \<Rightarrow>
          (let a0 = [Log LDebug ''Received %s event %s''];
               (err, a1) = dispatch lb ft msg (hist @ a0);
               (err, a2) =
                 (if err = None \<and> ws_Event msg \<noteq> messageReceipt \<and> ws_ID msg \<noteq> [] then
                    (let l = [Log LDebug ''Sending ack %s''];
                         ack = Marshal_JSONObject lb (ack_frame (ws_ID msg))
                     in (wsconn_Send ft (hist @ a0 @ a1 @ l) ack, l @ [WsSend ack]))
                  else (err, []))
           in if err \<noteq> None then
                (True, a0 @ a1 @ a2 @ [Log LError ''Event loop exiting: %s''])
              else (False, a0 @ a1 @ a2)))"

text \<open>
  What the \<open>select\<close> of the loop yields: the context is done, or the receive channel
  delivers a message or is closed (\<open>None\<close>).
\<close>

datatype select = CtxDone | Received "string option"

text \<open>
  The loop on a finite list of \<open>select\<close> outcomes. The result is whether the loop has
  returned (when the list ends first, the loop is waiting in \<open>select\<close>) and all the
  actions; the deferred \<open>wsconn.Close()\<close> is the last action of a loop that returns.
\<close>

fun eventLoop ::
  "lib \<Rightarrow> FFTokens \<Rightarrow> select list \<Rightarrow> action list \<Rightarrow> bool \<times> action list" where
  "eventLoop lb ft [] hist = (False, [])"
| "eventLoop lb ft (CtxDone # rest) hist =
     (True, [Log LDebug ''Event loop exiting (context cancelled)'', WsClose])"
| "eventLoop lb ft (Received None # rest) hist =
     (True, [Log LDebug ''Event loop exiting (receive channel closed)'', WsClose])"
| "eventLoop lb ft (Received (Some msgBytes) # rest) hist =
     (let r = [WsReceive msgBytes];
          (exit, acts) = eventLoop_message lb ft msgBytes (hist @ r)
      in if exit then (True, r @ acts @ [WsClose])
         else (let (exited, more) = eventLoop lb ft rest (hist @ r @ acts)
               in (exited, r @ acts @ more)))"

subsection \<open>The REST operations\<close>

text \<open>
  The two pool operations return \<open>(complete, err)\<close>, the other four return \<open>err\<close> alone;
  each is paired here with the actions it performed.
\<close>

definition CreateTokenPool ::
  "lib \<Rightarrow> FFTokens \<Rightarrow> UUID option \<Rightarrow> fftypes_TokenPool \<Rightarrow> action list
     \<Rightarrow> (bool \<times> error option) \<times> action list" where
  "CreateTokenPool lb ft opID pool hist =
     (let data = Marshal_tokenData lb
                   \<lparr>td_TX = ref_ID (p_TX pool),
                    td_TXType = ref_Type (p_TX pool),
                    td_Message = None,
                    td_MessageHash = None\<rparr>;
          body = createPool (p_Type pool) (UUID_String lb opID) (p_Key pool) data
                   (p_Config pool) (p_Name pool) (p_Symbol pool);
          (res, err) = client_Post ft hist ''/api/v1/createpool'' body;
          post = [HttpPost ''/api/v1/createpool'' body]
      in if err \<noteq> None \<or> \<not> IsSuccess res then
           ((False, Some (TokensRESTErr res err)), post)
         else if StatusCode res = 200 then
           (case Unmarshal_JSONObject lb (Body res) of
              None \<Rightarrow> ((False, Some (JSONObjectParseFailed (Body res))), post)
            | Some obj \<Rightarrow>
                (let (e, acts) = handleTokenPoolCreate lb ft obj (hist @ post)
                 in ((True, e), post @ acts)))
         else ((False, None), post))"

definition ActivateTokenPool ::
  "lib \<Rightarrow> FFTokens \<Rightarrow> UUID option \<Rightarrow> fftypes_TokenPool \<Rightarrow> action list
     \<Rightarrow> (bool \<times> error option) \<times> action list" where
  "ActivateTokenPool lb ft opID pool hist =
     (let body = activatePool (p_Locator pool) (p_Config pool) (UUID_String lb opID);
          (res, err) = client_Post ft hist ''/api/v1/activatepool'' body;
          post = [HttpPost ''/api/v1/activatepool'' body]
      in if err \<noteq> None \<or> \<not> IsSuccess res then
           ((False, Some (TokensRESTErr res err)), post)
         else if StatusCode res = 200 then
           (case Unmarshal_JSONObject lb (Body res) of
              None \<Rightarrow> ((False, Some (JSONObjectParseFailed (Body res))), post)
            | Some obj \<Rightarrow>
                (let (e, acts) = handleTokenPoolCreate lb ft obj (hist @ post)
                 in ((True, e), post @ acts)))
         else ((False, None), post))"

definition MintTokens ::
  "lib \<Rightarrow> FFTokens \<Rightarrow> UUID option \<Rightarrow> string \<Rightarrow> fftypes_TokenTransfer \<Rightarrow> action list
     \<Rightarrow> error option \<times> action list" where
  "MintTokens lb ft opID poolLocator mint hist =
     (let data = Marshal_tokenData lb
                   \<lparr>td_TX = ref_ID (tt_TX mint),
                    td_TXType = ref_Type (tt_TX mint),
                    td_Message = tt_Message mint,
                    td_MessageHash = tt_MessageHash mint\<rparr>;
          body = mintTokens poolLocator (tt_TokenIndex mint) (tt_To mint)
                   (BigInt_String lb (tt_Amount mint)) (UUID_String lb opID) (tt_Key mint) data;
          (res, err) = client_Post ft hist ''/api/v1/mint'' body;
          post = [HttpPost ''/api/v1/mint'' body]
      in if err \<noteq> None \<or> \<not> IsSuccess res then (Some (TokensRESTErr res err), post)
         else (None, post))"

definition BurnTokens ::
  "lib \<Rightarrow> FFTokens \<Rightarrow> UUID option \<Rightarrow> string \<Rightarrow> fftypes_TokenTransfer \<Rightarrow> action list
     \<Rightarrow> error option \<times> action list" where
  "BurnTokens lb ft opID poolLocator burn hist =
     (let data = Marshal_tokenData lb
                   \<lparr>td_TX = ref_ID (tt_TX burn),
                    td_TXType = ref_Type (tt_TX burn),
                    td_Message = tt_Message burn,
                    td_MessageHash = tt_MessageHash burn\<rparr>;
          body = burnTokens poolLocator (tt_TokenIndex burn) (tt_From burn)
                   (BigInt_String lb (tt_Amount burn)) (UUID_String lb opID) (tt_Key burn) data;
          (res, err) = client_Post ft hist ''/api/v1/burn'' body;
          post = [HttpPost ''/api/v1/burn'' body]
      in if err \<noteq> None \<or> \<not> IsSuccess res then (Some (TokensRESTErr res err), post)
         else (None, post))"

definition TransferTokens ::
  "lib \<Rightarrow> FFTokens \<Rightarrow> UUID option \<Rightarrow> string \<Rightarrow> fftypes_TokenTransfer \<Rightarrow> action list
     \<Rightarrow> error option \<times> action list" where
  "TransferTokens lb ft opID poolLocator transfer hist =
     (let data = Marshal_tokenData lb
                   \<lparr>td_TX = ref_ID (tt_TX transfer),
                    td_TXType = ref_Type (tt_TX transfer),
                    td_Message = tt_Message transfer,
                    td_MessageHash = tt_MessageHash transfer\<rparr>;
          body = transferTokens poolLocator (tt_TokenIndex transfer) (tt_From transfer)
                   (tt_To transfer) (BigInt_String lb (tt_Amount transfer))
                   (UUID_String lb opID) (tt_Key transfer) data;
          (res, err) = client_Post ft hist ''/api/v1/transfer'' body;
          post = [HttpPost ''/api/v1/transfer'' body]
      in if err \<noteq> None \<or> \<not> IsSuccess res then (Some (TokensRESTErr res err), post)
         else (None, post))"

definition TokensApproval ::
  "lib \<Rightarrow> FFTokens \<Rightarrow> UUID option \<Rightarrow> string \<Rightarrow> fftypes_TokenApproval \<Rightarrow> action list
     \<Rightarrow> error option \<times> action list" where
  "TokensApproval lb ft opID poolLocator approval hist =
     (let data = Marshal_tokenData lb
                   \<lparr>td_TX = ref_ID (ta_TX approval),
                    td_TXType = ref_Type (ta_TX approval),
                    td_Message = None,
                    td_MessageHash = None\<rparr>;
          body = tokenApproval (ta_Key approval) (ta_Operator approval) (ta_Approved approval)
                   poolLocator (UUID_String lb opID) data (ta_Config approval);
          (res, err) = client_Post ft hist ''/api/v1/approval'' body;
          post = [HttpPost ''/api/v1/approval'' body]
      in if err \<noteq> None \<or> \<not> IsSuccess res then (Some (TokensRESTErr res err), post)
         else (None, post))"

subsection \<open>The required fields of an event, in the words of the specification\<close>

text \<open>
  Section 4.1: a transfer "requires subject, pool locator, signer, and amount always;
  requires from unless kind is mint; requires to unless kind is burn". A field is there
  when the accessor reads a non-empty string.
\<close>

definition transfer_required_fields :: "lib \<Rightarrow> TokenTransferType \<Rightarrow> JSONObject \<Rightarrow> bool" where
  "transfer_required_fields lb t data =
     (GetString lb data ''subject'' \<noteq> [] \<and>
      GetString lb data ''poolLocator'' \<noteq> [] \<and>
      GetString lb data ''signer'' \<noteq> [] \<and>
      GetString lb data ''amount'' \<noteq> [] \<and>
      (t = TokenTransferTypeMint \<or> GetString lb data ''from'' \<noteq> []) \<and>
      (t = TokenTransferTypeBurn \<or> GetString lb data ''to'' \<noteq> []))"

text \<open>Section 4.1: an approval "requires subject, pool locator, signer, operator".\<close>

definition approval_required_fields :: "lib \<Rightarrow> JSONObject \<Rightarrow> bool" where
  "approval_required_fields lb data =
     (GetString lb data ''subject'' \<noteq> [] \<and>
      GetString lb data ''poolLocator'' \<noteq> [] \<and>
      GetString lb data ''signer'' \<noteq> [] \<and>
      GetString lb data ''operator'' \<noteq> [])"

subsection \<open>An environment for the examples\<close>

text \<open>
  Modelled from the spec: the accessors \<open>GetString\<close>, \<open>GetBool\<close> and \<open>GetObject\<close> of
  \<open>fftypes.JSONObject\<close>, whose code is not part of the sources at hand. Section 3 of the
  specification calls the payload a map of named fields with JSON-like scalars and
  objects as values, section 4.1 calls a required field missing when it is not there
  or empty, and the success and approved flags are booleans: a field that is absent, or
  whose value is of another kind, reads as the empty string, as false, as the empty
  object.
\<close>

definition GetString_spec :: "JSONObject \<Rightarrow> string \<Rightarrow> string" where
  "GetString_spec data key = (case data key of Some (JString s) \<Rightarrow> s | _ \<Rightarrow> [])"

definition GetBool_spec :: "JSONObject \<Rightarrow> string \<Rightarrow> bool" where
  "GetBool_spec data key = (case data key of Some (JBool b) \<Rightarrow> b | _ \<Rightarrow> False)"

definition GetObject_spec :: "JSONObject \<Rightarrow> string \<Rightarrow> JSONObject" where
  "GetObject_spec data key = (case data key of Some (JObject ob) \<Rightarrow> ob | _ \<Rightarrow> Map.empty)"

text \<open>
  The examples run the plugin in one concrete environment: the accessors above, and the
  text decoders given by what they return on the few texts the examples use (a UUID, a
  timestamp, the serialized \<open>tokenData\<close>, the frames), every other text being refused.
\<close>

definition example_uuid :: UUID where
  "example_uuid = 0x6f1c2a84d3b54e0f9a6b1c2d3e4f5a6b"

definition example_uuid_text :: string where
  "example_uuid_text = ''6f1c2a84-d3b5-4e0f-9a6b-1c2d3e4f5a6b''"

definition example_UUID_String :: "UUID option \<Rightarrow> string" where
  "example_UUID_String u = (if u = Some example_uuid then example_uuid_text else [])"

definition example_time :: FFTime where
  "example_time = 1646136000000000000"

text \<open>
  \<open>json.Marshal\<close> of a \<open>tokenData\<close> whose strings need no escaping: the fields \<open>tx\<close>,
  \<open>txtype\<close>, each left out when empty (\<open>omitempty\<close>); the examples set no message.
\<close>

definition example_Marshal_tokenData :: "tokenData \<Rightarrow> string" where
  \<open>example_Marshal_tokenData d =
     (let tx = (case td_TX d of None \<Rightarrow> []
                | Some u \<Rightarrow> ''"tx":"'' @ example_UUID_String (Some u) @ ''"'');
          txtype = (if td_TXType d = [] then [] else ''"txtype":"'' @ td_TXType d @ ''"'')
      in ''{'' @ tx @ (if tx \<noteq> [] \<and> txtype \<noteq> [] then '','' else []) @ txtype @ ''}'')\<close>

definition example_tokenData_texts :: "(string \<times> tokenData) list" where
  \<open>example_tokenData_texts =
     [(''{}'', zero_tokenData),
      (''{"tx":"6f1c2a84-d3b5-4e0f-9a6b-1c2d3e4f5a6b"}'',
       zero_tokenData\<lparr>td_TX := Some example_uuid\<rparr>),
      (''{"tx":"6f1c2a84-d3b5-4e0f-9a6b-1c2d3e4f5a6b","txtype":"token-pool"}'',
       zero_tokenData\<lparr>td_TX := Some example_uuid, td_TXType := ''token-pool''\<rparr>)]\<close>

text \<open>\<open>json.Marshal\<close> of an acknowledgement whose identifier needs no escaping (keys sorted).\<close>

definition example_Marshal_JSONObject :: "JSONObject \<Rightarrow> string" where
  \<open>example_Marshal_JSONObject ob =
     ''{"data":{"id":"'' @ GetString_spec (GetObject_spec ob ''data'') ''id'' @ ''"},"event":"ack"}''\<close>

definition pool_payload :: JSONObject where
  "pool_payload = [''type'' \<mapsto> JString ''fungible'', ''poolLocator'' \<mapsto> JString ''pool1'']"

definition receipt_payload :: JSONObject where
  "receipt_payload =
     [''id'' \<mapsto> JString example_uuid_text, ''success'' \<mapsto> JBool True,
      ''transactionHash'' \<mapsto> JString ''0xabc'']"

definition mint_payload :: JSONObject where
  "mint_payload =
     [''subject'' \<mapsto> JString ''s1'', ''poolLocator'' \<mapsto> JString ''pool1'',
      ''signer'' \<mapsto> JString ''0x01'', ''to'' \<mapsto> JString ''0x02'',
      ''amount'' \<mapsto> JString ''100'']"

definition approval_payload :: JSONObject where
  "approval_payload =
     [''subject'' \<mapsto> JString ''s2'', ''poolLocator'' \<mapsto> JString ''pool1'',
      ''signer'' \<mapsto> JString ''0x01'', ''operator'' \<mapsto> JString ''0x03'']"

text \<open>The pool that the examples create: a fungible pool in transaction \<open>example_uuid\<close>.\<close>

definition example_pool :: fftypes_TokenPool where
  "example_pool =
     \<lparr>p_TX = \<lparr>ref_ID = Some example_uuid, ref_Type = ''token-pool''\<rparr>,
      p_Type = ''fungible'', p_Key = ''0x01'', p_Config = Map.empty,
      p_Name = ''pool'', p_Symbol = ''PL'', p_Locator = ''pool1''\<rparr>"

definition pool_echo_text :: string where
  \<open>pool_echo_text = ''{"tx":"6f1c2a84-d3b5-4e0f-9a6b-1c2d3e4f5a6b","txtype":"token-pool"}''\<close>

definition pool_echo_text_no_kind :: string where
  \<open>pool_echo_text_no_kind = ''{"tx":"6f1c2a84-d3b5-4e0f-9a6b-1c2d3e4f5a6b"}''\<close>

definition pool_response_text :: string where
  \<open>pool_response_text = ''{"type":"fungible","poolLocator":"pool1"}''\<close>

definition frame_pool :: string where
  \<open>frame_pool =
     ''{"event":"token-pool","id":"7","data":{"type":"fungible","poolLocator":"pool1"}}''\<close>

definition frame_pool_no_id :: string where
  \<open>frame_pool_no_id =
     ''{"event":"token-pool","data":{"type":"fungible","poolLocator":"pool1"}}''\<close>

definition frame_receipt :: string where
  \<open>frame_receipt =
     ''{"event":"receipt","id":"r1","data":{"id":"6f1c2a84-d3b5-4e0f-9a6b-1c2d3e4f5a6b","success":true,"transactionHash":"0xabc"}}''\<close>

definition frame_mint :: string where
  \<open>frame_mint =
     ''{"event":"token-mint","id":"8","data":{"subject":"s1","poolLocator":"pool1","signer":"0x01","to":"0x02","amount":"100"}}''\<close>

definition frame_mint_bad_amount :: string where
  \<open>frame_mint_bad_amount =
     ''{"event":"token-mint","id":"9","data":{"subject":"s1","poolLocator":"pool1","signer":"0x01","to":"0x02","amount":"12x"}}''\<close>

definition example_frames :: "(string \<times> wsEvent) list" where
  "example_frames =
     [(frame_pool,
       \<lparr>ws_Event = ''token-pool'', ws_ID = ''7'', ws_Data = pool_payload\<rparr>),
      (frame_pool_no_id,
       \<lparr>ws_Event = ''token-pool'', ws_ID = [], ws_Data = pool_payload\<rparr>),
      (frame_receipt,
       \<lparr>ws_Event = ''receipt'', ws_ID = ''r1'', ws_Data = receipt_payload\<rparr>),
      (frame_mint,
       \<lparr>ws_Event = ''token-mint'', ws_ID = ''8'', ws_Data = mint_payload\<rparr>),
      (frame_mint_bad_amount,
       \<lparr>ws_Event = ''token-mint'', ws_ID = ''9'',
        ws_Data = mint_payload(''amount'' \<mapsto> JString ''12x'')\<rparr>)]"

definition example_lib :: lib where
  \<open>example_lib =
     \<lparr>GetString = GetString_spec,
      GetBool = GetBool_spec,
      GetObject = GetObject_spec,
      ParseUUID = (\<lambda>s. if s = example_uuid_text then Some example_uuid else None),
      UUID_String = example_UUID_String,
      ParseTimeString = (\<lambda>s. if s = ''2022-03-01T12:00:00Z'' then Some example_time else None),
      Now = (\<lambda>hist. example_time + 1 + int (length hist)),
      Marshal_tokenData = example_Marshal_tokenData,
      Unmarshal_tokenData = map_of example_tokenData_texts,
      Marshal_JSONObject = example_Marshal_JSONObject,
      Unmarshal_JSONObject = (\<lambda>s. if s = pool_response_text then Some pool_payload else None),
      Unmarshal_wsEvent = map_of example_frames,
      BigInt_String = (\<lambda>n. if n = 100 then ''100'' else ''0'')\<rparr>\<close>

text \<open>
  A plugin named \<open>erc20\<close> whose callbacks and sends succeed and whose HTTP requests are
  answered by status 202 and an empty body.
\<close>

definition example_ft :: FFTokens where
  "example_ft =
     \<lparr>callbacks =
        \<lparr>TokenPoolCreated = (\<lambda>hist pool. None),
         TokensTransferred = (\<lambda>hist transfer. None),
         TokensApproved = (\<lambda>hist approval. None)\<rparr>,
      configuredName = ''erc20'',
      client_Post = (\<lambda>hist path body. (\<lparr>StatusCode = 202, Body = []\<rparr>, None)),
      wsconn_Send = (\<lambda>hist frame. None)\<rparr>"

section \<open>Properties\<close>

subsection \<open>Unfolding the examples\<close>

lemmas example_defs =
  example_lib_def example_ft_def mint_payload_def pool_payload_def receipt_payload_def
  approval_payload_def example_pool_def pool_echo_text_def pool_echo_text_no_kind_def
  pool_response_text_def
  GetString_spec_def GetBool_spec_def GetObject_spec_def example_tokenData_texts_def
  example_frames_def example_Marshal_tokenData_def example_Marshal_JSONObject_def
  example_UUID_String_def example_uuid_text_def example_uuid_def example_time_def
  frame_pool_def frame_pool_no_id_def frame_receipt_def frame_mint_def frame_mint_bad_amount_def
  zero_tokenData_def zero_Event_def Name_def
  TransactionTypeTokenPool_def TransactionTypeTokenTransfer_def TransactionTypeTokenApproval_def
  SetString10_def is_digit10_def digits10_def
  messageReceipt_def messageTokenPool_def messageTokenMint_def messageTokenBurn_def
  messageTokenTransfer_def messageTokenApproval_def ack_frame_def IsSuccess_def

subsection \<open>The transfer handler\<close>

lemma handleTokenTransfer_missing:
  "\<not> transfer_required_fields lb t data \<Longrightarrow>
   handleTokenTransfer lb ft t data hist =
     (None, [Log LError ''%s event is not valid - missing data: %+v''])"
  unfolding handleTokenTransfer_def transfer_required_fields_def Let_def
  by (simp only: de_Morgan_conj de_Morgan_disj not_not if_True if_False)

lemma handleTokenTransfer_bad_amount:
  "transfer_required_fields lb t data \<Longrightarrow>
   SetString10 (GetString lb data ''amount'') = None \<Longrightarrow>
   handleTokenTransfer lb ft t data hist =
     (None,
      (if Unmarshal_tokenData lb (GetString lb data ''data'') = None
       then [Log LInfo ''%s event data could not be parsed - continuing anyway (%s): %+v'']
       else []) @ [Log LError ''%s event is not valid - invalid amount: %+v''])"
  unfolding handleTokenTransfer_def transfer_required_fields_def Let_def
  by simp

lemma handleTokenTransfer_callback_only_if:
  "a \<in> set (snd (handleTokenTransfer lb ft t data hist)) \<Longrightarrow> is_callback a \<Longrightarrow>
   transfer_required_fields lb t data"
  by (rule ccontr) (auto simp: handleTokenTransfer_missing)

text \<open>
  C1. A transfer event that lacks a required field (subject, pool locator, signer,
  amount, "from" unless the kind is mint, "to" unless the kind is burn) is skipped: the
  handler returns no error and its only action is one error log line, so no record is
  built and no callback is invoked. Conversely, whenever the handler invokes a callback,
  all the required fields are there.
\<close>

theorem transfer_requires_fields:
  "(\<not> transfer_required_fields lb t data \<longrightarrow>
      handleTokenTransfer lb ft t data hist =
        (None, [Log LError ''%s event is not valid - missing data: %+v''])) \<and>
   (\<forall>a \<in> set (snd (handleTokenTransfer lb ft t data hist)).
      is_callback a \<longrightarrow> transfer_required_fields lb t data)"
  using handleTokenTransfer_missing handleTokenTransfer_callback_only_if by blast

text \<open>
  A mint event without "to" is skipped; the same event with "to" and without "from" has
  its required fields and reaches the callback.
\<close>

theorem transfer_requires_fields_witness:
  "\<not> transfer_required_fields example_lib TokenTransferTypeMint (mint_payload(''to'' := None)) \<and>
   handleTokenTransfer example_lib example_ft TokenTransferTypeMint
       (mint_payload(''to'' := None)) [] =
     (None, [Log LError ''%s event is not valid - missing data: %+v'']) \<and>
   transfer_required_fields example_lib TokenTransferTypeMint mint_payload \<and>
   filter is_callback
     (snd (handleTokenTransfer example_lib example_ft TokenTransferTypeMint mint_payload []))
     \<noteq> []"
  using transfer_requires_fields
          [of example_lib TokenTransferTypeMint "mint_payload(''to'' := None)" example_ft "[]"]
        transfer_requires_fields
          [of example_lib TokenTransferTypeMint mint_payload example_ft "[]"]
  by (simp add: transfer_required_fields_def handleTokenTransfer_def example_defs Let_def)

subsection \<open>One iteration of the event loop\<close>

lemma eventLoop_message_error:
  assumes "Unmarshal_wsEvent lb msgBytes = Some msg"
      and "dispatch lb ft msg (hist @ [Log LDebug ''Received %s event %s'']) = (Some e, acts)"
  shows "eventLoop_message lb ft msgBytes hist =
           (True, [Log LDebug ''Received %s event %s''] @ acts @
                  [Log LError ''Event loop exiting: %s''])"
  using assms by (simp add: eventLoop_message_def)

lemma eventLoop_message_no_ack:
  assumes "Unmarshal_wsEvent lb msgBytes = Some msg"
      and "dispatch lb ft msg (hist @ [Log LDebug ''Received %s event %s'']) = (None, acts)"
      and "ws_Event msg = messageReceipt \<or> ws_ID msg = []"
  shows "eventLoop_message lb ft msgBytes hist =
           (False, [Log LDebug ''Received %s event %s''] @ acts)"
  using assms by (auto simp add: eventLoop_message_def)

lemma eventLoop_message_ack:
  assumes "Unmarshal_wsEvent lb msgBytes = Some msg"
      and "dispatch lb ft msg (hist @ [Log LDebug ''Received %s event %s'']) = (None, acts)"
      and "ws_Event msg \<noteq> messageReceipt" and "ws_ID msg \<noteq> []"
  shows "eventLoop_message lb ft msgBytes hist =
           (wsconn_Send ft
              (hist @ [Log LDebug ''Received %s event %s''] @ acts @
               [Log LDebug ''Sending ack %s''])
              (Marshal_JSONObject lb (ack_frame (ws_ID msg))) \<noteq> None,
            [Log LDebug ''Received %s event %s''] @ acts @
            [Log LDebug ''Sending ack %s'',
             WsSend (Marshal_JSONObject lb (ack_frame (ws_ID msg)))] @
            (if wsconn_Send ft
                  (hist @ [Log LDebug ''Received %s event %s''] @ acts @
                   [Log LDebug ''Sending ack %s''])
                  (Marshal_JSONObject lb (ack_frame (ws_ID msg))) \<noteq> None
             then [Log LError ''Event loop exiting: %s''] else []))"
  using assms by (auto simp add: eventLoop_message_def Let_def)

lemma dispatch_transfer_kinds:
  assumes "ws_Event msg \<in> {messageTokenMint, messageTokenBurn, messageTokenTransfer}"
  shows "ws_Event msg \<noteq> messageReceipt \<and>
         (\<exists>t. dispatch lb ft msg hist = handleTokenTransfer lb ft t (ws_Data msg) hist)"
  using assms
  by (auto simp add: dispatch_def messageReceipt_def messageTokenPool_def messageTokenMint_def
        messageTokenBurn_def messageTokenTransfer_def)

subsection \<open>Amounts that do not parse\<close>

lemma unparseable_amount_handler:
  assumes "SetString10 (GetString lb data ''amount'') = None"
  shows "fst (handleTokenTransfer lb ft t data hist) = None \<and>
         list_all is_log (snd (handleTokenTransfer lb ft t data hist))"
proof (cases "transfer_required_fields lb t data")
  case True
  then show ?thesis using assms by (simp add: handleTokenTransfer_bad_amount)
next
  case False
  then show ?thesis by (simp add: handleTokenTransfer_missing)
qed

lemma filter_logs_only: "list_all is_log xs \<Longrightarrow> filter (\<lambda>a. \<not> is_log a) xs = []"
  by (induction xs) auto

text \<open>
  C2. A transfer event whose amount is not a base-10 integer is skipped: the handler
  returns no error and all its actions are log lines (no record, no callback). The
  event loop then still acknowledges the frame (the acknowledgement is the only action
  of the iteration that is not a log line) and, when the send succeeds, goes on.
\<close>

theorem unparseable_amount_is_skipped:
  assumes "SetString10 (GetString lb data ''amount'') = None"
  shows "fst (handleTokenTransfer lb ft t data hist) = None \<and>
         list_all is_log (snd (handleTokenTransfer lb ft t data hist)) \<and>
         (\<forall>msgBytes msg.
            Unmarshal_wsEvent lb msgBytes = Some msg \<and> ws_Data msg = data \<and>
            ws_Event msg \<in> {messageTokenMint, messageTokenBurn, messageTokenTransfer} \<and>
            ws_ID msg \<noteq> [] \<longrightarrow>
            filter (\<lambda>a. \<not> is_log a) (snd (eventLoop_message lb ft msgBytes hist)) =
              [WsSend (Marshal_JSONObject lb (ack_frame (ws_ID msg)))] \<and>
            ((\<forall>h. wsconn_Send ft h (Marshal_JSONObject lb (ack_frame (ws_ID msg))) = None) \<longrightarrow>
               \<not> fst (eventLoop_message lb ft msgBytes hist)))"
proof (intro conjI allI impI)
  show "fst (handleTokenTransfer lb ft t data hist) = None"
    using unparseable_amount_handler [OF assms] by simp
  show "list_all is_log (snd (handleTokenTransfer lb ft t data hist))"
    using unparseable_amount_handler [OF assms] by simp
next
  fix msgBytes msg
  assume a: "Unmarshal_wsEvent lb msgBytes = Some msg \<and> ws_Data msg = data \<and>
             ws_Event msg \<in> {messageTokenMint, messageTokenBurn, messageTokenTransfer} \<and>
             ws_ID msg \<noteq> []"
  let ?h = "hist @ [Log LDebug ''Received %s event %s'']"
  from a dispatch_transfer_kinds [of msg lb ft ?h]
  obtain t' where nr: "ws_Event msg \<noteq> messageReceipt"
    and d: "dispatch lb ft msg ?h = handleTokenTransfer lb ft t' data ?h"
    by auto
  obtain acts where r: "handleTokenTransfer lb ft t' data ?h = (None, acts)"
    and logs: "list_all is_log acts"
    using unparseable_amount_handler [OF assms, of ft t' ?h]
    by (cases "handleTokenTransfer lb ft t' data ?h") auto
  have step: "dispatch lb ft msg ?h = (None, acts)" using d r by simp
  note m = eventLoop_message_ack [OF _ step nr, of msgBytes]
  show "filter (\<lambda>a. \<not> is_log a) (snd (eventLoop_message lb ft msgBytes hist)) =
          [WsSend (Marshal_JSONObject lb (ack_frame (ws_ID msg)))]"
    using a logs by (simp add: m filter_logs_only)
  {
    assume "\<forall>h. wsconn_Send ft h (Marshal_JSONObject lb (ack_frame (ws_ID msg))) = None"
    then show "\<not> fst (eventLoop_message lb ft msgBytes hist)"
      using a by (simp add: m)
  }
qed

text \<open>
  The mint frame with the amount \<open>12x\<close>: the handler logs and returns, the loop
  acknowledges identifier 9 and continues.
\<close>

theorem unparseable_amount_is_skipped_witness:
  \<open>SetString10 (GetString example_lib (mint_payload(''amount'' \<mapsto> JString ''12x'')) ''amount'') = None \<and>
   fst (handleTokenTransfer example_lib example_ft TokenTransferTypeMint
          (mint_payload(''amount'' \<mapsto> JString ''12x'')) []) = None \<and>
   handleTokenTransfer example_lib example_ft TokenTransferTypeMint
       (mint_payload(''amount'' \<mapsto> JString ''12x'')) [] =
     (None,
      [Log LInfo ''%s event data could not be parsed - continuing anyway (%s): %+v'',
       Log LError ''%s event is not valid - invalid amount: %+v'']) \<and>
   eventLoop_message example_lib example_ft frame_mint_bad_amount [] =
     (False,
      [Log LDebug ''Received %s event %s'',
       Log LInfo ''%s event data could not be parsed - continuing anyway (%s): %+v'',
       Log LError ''%s event is not valid - invalid amount: %+v'',
       Log LDebug ''Sending ack %s'',
       WsSend ''{"data":{"id":"9"},"event":"ack"}'']) \<and>
   filter (\<lambda>a. \<not> is_log a) (snd (eventLoop_message example_lib example_ft frame_mint_bad_amount [])) =
     [WsSend (Marshal_JSONObject example_lib (ack_frame ''9''))]\<close>
proof -
  let ?d = "mint_payload(''amount'' \<mapsto> JString ''12x'')"
  have h: "SetString10 (GetString example_lib ?d ''amount'') = None"
    by (simp add: example_defs)
  have e1: \<open>handleTokenTransfer example_lib example_ft TokenTransferTypeMint ?d [] =
     (None,
      [Log LInfo ''%s event data could not be parsed - continuing anyway (%s): %+v'',
       Log LError ''%s event is not valid - invalid amount: %+v''])\<close>
    by (simp add: handleTokenTransfer_def example_defs Let_def)
  note t = unparseable_amount_is_skipped [OF h, of example_ft TokenTransferTypeMint "[]"]
  have c: "fst (handleTokenTransfer example_lib example_ft TokenTransferTypeMint ?d []) = None"
    using t by (rule conjunct1)
  have u: "Unmarshal_wsEvent example_lib frame_mint_bad_amount =
             Some \<lparr>ws_Event = ''token-mint'', ws_ID = ''9'', ws_Data = ?d\<rparr>"
    by (simp add: example_defs)
  have e2: \<open>eventLoop_message example_lib example_ft frame_mint_bad_amount [] =
     (False,
      [Log LDebug ''Received %s event %s'',
       Log LInfo ''%s event data could not be parsed - continuing anyway (%s): %+v'',
       Log LError ''%s event is not valid - invalid amount: %+v'',
       Log LDebug ''Sending ack %s'',
       WsSend ''{"data":{"id":"9"},"event":"ack"}''])\<close>
    unfolding eventLoop_message_def u
    by (simp add: dispatch_def handleTokenTransfer_def example_defs Let_def)
  have k: "ws_Event \<lparr>ws_Event = ''token-mint'', ws_ID = ''9'', ws_Data = ?d\<rparr>
             \<in> {messageTokenMint, messageTokenBurn, messageTokenTransfer}"
    by (simp add: messageTokenMint_def)
  have l: "filter (\<lambda>a. \<not> is_log a)
             (snd (eventLoop_message example_lib example_ft frame_mint_bad_amount [])) =
           [WsSend (Marshal_JSONObject example_lib (ack_frame ''9''))]"
    using t [THEN conjunct2, THEN conjunct2, rule_format, of frame_mint_bad_amount
               "\<lparr>ws_Event = ''token-mint'', ws_ID = ''9'', ws_Data = ?d\<rparr>"]
      u k
    by simp
  show ?thesis
    by (intro conjI) (rule h, rule c, rule e1, rule e2, rule l)
qed

subsection \<open>What the handlers do to the outside\<close>

lemma handleReceipt_actions:
  "a \<in> set (handleReceipt lb data) \<Longrightarrow> is_log a \<or> is_callback a"
  by (auto simp add: handleReceipt_def Let_def split: if_splits option.splits)

lemma handleTokenPoolCreate_actions:
  "a \<in> set (snd (handleTokenPoolCreate lb ft data hist)) \<Longrightarrow> is_log a \<or> is_callback a"
  by (auto simp add: handleTokenPoolCreate_def Let_def split: if_splits option.splits)

lemma handleTokenTransfer_actions:
  "a \<in> set (snd (handleTokenTransfer lb ft t data hist)) \<Longrightarrow> is_log a \<or> is_callback a"
  by (auto simp add: handleTokenTransfer_def Let_def split: if_splits option.splits)

lemma handleTokenApproval_actions:
  "a \<in> set (snd (handleTokenApproval lb ft data hist)) \<Longrightarrow> is_log a \<or> is_callback a"
  by (auto simp add: handleTokenApproval_def Let_def split: if_splits option.splits)

lemma dispatch_actions:
  "a \<in> set (snd (dispatch lb ft msg hist)) \<Longrightarrow> is_log a \<or> is_callback a"
  using handleReceipt_actions handleTokenPoolCreate_actions handleTokenTransfer_actions
    handleTokenApproval_actions
  by (auto simp add: dispatch_def split: if_splits)

lemma not_send_if_log_or_callback: "is_log a \<or> is_callback a \<Longrightarrow> \<not> is_send a"
  by (cases a) auto

lemma dispatch_sends_nothing: "filter is_send (snd (dispatch lb ft msg hist)) = []"
  using dispatch_actions not_send_if_log_or_callback
  by (fastforce simp add: filter_empty_conv)





subsection \<open>The loop, frame by frame\<close>

lemma eventLoop_exits:
  "fst (eventLoop_message lb ft msgBytes (hist @ [WsReceive msgBytes])) \<Longrightarrow>
   eventLoop lb ft (Received (Some msgBytes) # rest) hist =
     (True, [WsReceive msgBytes] @
            snd (eventLoop_message lb ft msgBytes (hist @ [WsReceive msgBytes])) @ [WsClose])"
  by (simp add: Let_def case_prod_beta)

lemma eventLoop_continues:
  "\<not> fst (eventLoop_message lb ft msgBytes (hist @ [WsReceive msgBytes])) \<Longrightarrow>
   eventLoop lb ft (Received (Some msgBytes) # rest) hist =
     (fst (eventLoop lb ft rest
             (hist @ [WsReceive msgBytes] @
              snd (eventLoop_message lb ft msgBytes (hist @ [WsReceive msgBytes])))),
      [WsReceive msgBytes] @
      snd (eventLoop_message lb ft msgBytes (hist @ [WsReceive msgBytes])) @
      snd (eventLoop lb ft rest
             (hist @ [WsReceive msgBytes] @
              snd (eventLoop_message lb ft msgBytes (hist @ [WsReceive msgBytes])))))"
  by (simp add: Let_def case_prod_beta)

text \<open>
  The loop on a list of outcomes followed by another: when it has not returned on the
  first list, it goes on with the second from the history reached.
\<close>

lemma eventLoop_append:
  "eventLoop lb ft (earlier @ later) hist =
     (if fst (eventLoop lb ft earlier hist) then eventLoop lb ft earlier hist
      else (fst (eventLoop lb ft later (hist @ snd (eventLoop lb ft earlier hist))),
            snd (eventLoop lb ft earlier hist) @
            snd (eventLoop lb ft later (hist @ snd (eventLoop lb ft earlier hist)))))"
proof (induction earlier arbitrary: hist)
  case Nil
  then show ?case by simp
next
  case (Cons s earlier)
  show ?case
  proof (cases s)
    case CtxDone
    then show ?thesis by simp
  next
    case (Received r)
    show ?thesis
    proof (cases r)
      case None
      with Received show ?thesis by simp
    next
      case (Some msgBytes)
      show ?thesis
      proof (cases "fst (eventLoop_message lb ft msgBytes (hist @ [WsReceive msgBytes]))")
        case True
        then show ?thesis
          using Received Some eventLoop_exits [of lb ft msgBytes hist] by simp
      next
        case False
        then show ?thesis
          using Received Some eventLoop_continues [of lb ft msgBytes hist]
            Cons.IH [of "hist @ [WsReceive msgBytes] @
              snd (eventLoop_message lb ft msgBytes (hist @ [WsReceive msgBytes]))"]
          by simp
      qed
    qed
  qed
qed

subsection \<open>Acknowledgements\<close>

lemma eventLoop_message_sends:
  assumes "Unmarshal_wsEvent lb msgBytes = Some msg"
      and "dispatch lb ft msg (hist @ [Log LDebug ''Received %s event %s'']) = (err, acts)"
  shows "(ws_Event msg \<noteq> messageReceipt \<and> ws_ID msg \<noteq> [] \<and> err = None \<longrightarrow>
            (\<exists>tail. snd (eventLoop_message lb ft msgBytes hist) =
                      [Log LDebug ''Received %s event %s''] @ acts @
                      [Log LDebug ''Sending ack %s'',
                       WsSend (Marshal_JSONObject lb (ack_frame (ws_ID msg)))] @ tail \<and>
                    list_all is_log tail) \<and>
            filter is_send (snd (eventLoop_message lb ft msgBytes hist)) =
              [WsSend (Marshal_JSONObject lb (ack_frame (ws_ID msg)))]) \<and>
         (ws_Event msg = messageReceipt \<or> ws_ID msg = [] \<or> err \<noteq> None \<longrightarrow>
            filter is_send (snd (eventLoop_message lb ft msgBytes hist)) = [])"
proof (intro conjI impI)
  assume e: "ws_Event msg \<noteq> messageReceipt \<and> ws_ID msg \<noteq> [] \<and> err = None"
  then have d: "dispatch lb ft msg (hist @ [Log LDebug ''Received %s event %s'']) = (None, acts)"
    using assms(2) by simp
  from e have nr: "ws_Event msg \<noteq> messageReceipt" and ni: "ws_ID msg \<noteq> []" by simp_all
  note m = eventLoop_message_ack [OF assms(1) d nr ni]
  have ns: "filter is_send acts = []"
    using dispatch_sends_nothing [of lb ft msg "hist @ [Log LDebug ''Received %s event %s'']"] d
    by simp
  show "\<exists>tail. snd (eventLoop_message lb ft msgBytes hist) =
                 [Log LDebug ''Received %s event %s''] @ acts @
                 [Log LDebug ''Sending ack %s'',
                  WsSend (Marshal_JSONObject lb (ack_frame (ws_ID msg)))] @ tail \<and>
               list_all is_log tail"
    by (simp add: m)
  show "filter is_send (snd (eventLoop_message lb ft msgBytes hist)) =
          [WsSend (Marshal_JSONObject lb (ack_frame (ws_ID msg)))]"
    by (simp add: m ns)
next
  assume e: "ws_Event msg = messageReceipt \<or> ws_ID msg = [] \<or> err \<noteq> None"
  have ns: "filter is_send acts = []"
    using dispatch_sends_nothing [of lb ft msg "hist @ [Log LDebug ''Received %s event %s'']"]
      assms(2)
    by simp
  show "filter is_send (snd (eventLoop_message lb ft msgBytes hist)) = []"
  proof (cases err)
    case (Some x)
    then show ?thesis
      using eventLoop_message_error [OF assms(1), of ft hist x acts] assms(2) ns by simp
  next
    case None
    then have "ws_Event msg = messageReceipt \<or> ws_ID msg = []" using e by simp
    then show ?thesis
      using eventLoop_message_no_ack [OF assms(1), of ft hist acts] assms(2) None ns by simp
  qed
qed

lemma eventLoop_one_frame:
  assumes "\<not> fst (eventLoop lb ft earlier hist0)"
      and "hist = hist0 @ snd (eventLoop lb ft earlier hist0)"
  shows "snd (eventLoop lb ft (earlier @ [Received (Some msgBytes)]) hist0) =
           snd (eventLoop lb ft earlier hist0) @ [WsReceive msgBytes] @
           snd (eventLoop_message lb ft msgBytes (hist @ [WsReceive msgBytes])) @
           (if fst (eventLoop_message lb ft msgBytes (hist @ [WsReceive msgBytes]))
            then [WsClose] else [])"
  using assms(1) eventLoop_exits [of lb ft msgBytes hist "[]"]
    eventLoop_continues [of lb ft msgBytes hist "[]"]
  by (simp add: eventLoop_append assms(2))

text \<open>
  C4. Take any frame of the stream that decodes: the loop has not returned on the
  outcomes \<open>earlier\<close>, \<open>hist\<close> is the history it has reached, and the switch leaves \<open>err\<close>
  after the actions \<open>acts\<close> of the handler. The actions \<open>step\<close> that the frame adds to
  those of the loop are these. If the kind is not "receipt", the identifier is not
  empty and \<open>err\<close> is nil: the handler's actions, then the acknowledgement
  \<open>{event: "ack", data: {id: identifier}}\<close>, then nothing that is a send; so exactly one
  frame is sent, and it is sent after every action of the handler (any callback
  included). For a receipt, an empty identifier or a handler error, nothing is sent.
\<close>

theorem ack_after_handler:
  assumes "\<not> fst (eventLoop lb ft earlier hist0)"
      and "hist = hist0 @ snd (eventLoop lb ft earlier hist0)"
      and "Unmarshal_wsEvent lb msgBytes = Some msg"
      and "dispatch lb ft msg (hist @ [WsReceive msgBytes, Log LDebug ''Received %s event %s''])
             = (err, acts)"
  shows "\<exists>step.
           snd (eventLoop lb ft (earlier @ [Received (Some msgBytes)]) hist0) =
             snd (eventLoop lb ft earlier hist0) @ [WsReceive msgBytes] @ step \<and>
           (ws_Event msg \<noteq> messageReceipt \<and> ws_ID msg \<noteq> [] \<and> err = None \<longrightarrow>
              (\<exists>tail. step = [Log LDebug ''Received %s event %s''] @ acts @
                             [Log LDebug ''Sending ack %s'',
                              WsSend (Marshal_JSONObject lb (ack_frame (ws_ID msg)))] @ tail \<and>
                      filter is_send tail = []) \<and>
              filter is_send step = [WsSend (Marshal_JSONObject lb (ack_frame (ws_ID msg)))] \<and>
              ack_frame (ws_ID msg) =
                [''event'' \<mapsto> JString ''ack'',
                 ''data'' \<mapsto> JObject [''id'' \<mapsto> JString (ws_ID msg)]]) \<and>
           (ws_Event msg = messageReceipt \<or> ws_ID msg = [] \<or> err \<noteq> None \<longrightarrow>
              filter is_send step = [])"
proof -
  let ?h = "hist @ [WsReceive msgBytes]"
  let ?m = "eventLoop_message lb ft msgBytes ?h"
  let ?step = "snd ?m @ (if fst ?m then [WsClose] else [])"
  have d: "dispatch lb ft msg (?h @ [Log LDebug ''Received %s event %s'']) = (err, acts)"
    using assms(4) by simp
  note s = eventLoop_message_sends [OF assms(3) d]
  have 1: "snd (eventLoop lb ft (earlier @ [Received (Some msgBytes)]) hist0) =
             snd (eventLoop lb ft earlier hist0) @ [WsReceive msgBytes] @ ?step"
    using eventLoop_one_frame [OF assms(1) assms(2)] by simp
  have 2: "(\<exists>tail. ?step = [Log LDebug ''Received %s event %s''] @ acts @
                             [Log LDebug ''Sending ack %s'',
                              WsSend (Marshal_JSONObject lb (ack_frame (ws_ID msg)))] @ tail \<and>
                      filter is_send tail = []) \<and>
           filter is_send ?step = [WsSend (Marshal_JSONObject lb (ack_frame (ws_ID msg)))] \<and>
           ack_frame (ws_ID msg) =
             [''event'' \<mapsto> JString ''ack'', ''data'' \<mapsto> JObject [''id'' \<mapsto> JString (ws_ID msg)]]"
    if e: "ws_Event msg \<noteq> messageReceipt \<and> ws_ID msg \<noteq> [] \<and> err = None"
  proof -
    from s e obtain tail where
      t: "snd ?m = [Log LDebug ''Received %s event %s''] @ acts @
            [Log LDebug ''Sending ack %s'',
             WsSend (Marshal_JSONObject lb (ack_frame (ws_ID msg)))] @ tail"
      and l: "list_all is_log tail"
      and f: "filter is_send (snd ?m) = [WsSend (Marshal_JSONObject lb (ack_frame (ws_ID msg)))]"
      by blast
    have nt: "filter is_send tail = []"
      using l by (induction tail) (auto elim: is_log.elims)
    have "?step = [Log LDebug ''Received %s event %s''] @ acts @
            [Log LDebug ''Sending ack %s'',
             WsSend (Marshal_JSONObject lb (ack_frame (ws_ID msg)))] @
            (tail @ (if fst ?m then [WsClose] else []))"
      using t by simp
    moreover have "filter is_send (tail @ (if fst ?m then [WsClose] else [])) = []"
      using nt by simp
    moreover have "filter is_send ?step = [WsSend (Marshal_JSONObject lb (ack_frame (ws_ID msg)))]"
      using f by simp
    ultimately show ?thesis
      by (simp only: ack_frame_def) blast
  qed
  have 3: "filter is_send ?step = []"
    if "ws_Event msg = messageReceipt \<or> ws_ID msg = [] \<or> err \<noteq> None"
  proof -
    have "filter is_send (snd ?m) = []"
      using s that by blast
    then show ?thesis by simp
  qed
  show ?thesis
    using 1 2 3 by blast
qed

text \<open>
  A mint frame and then the pool frame with identifier 7: each is acknowledged once,
  after its callback. A receipt frame is not acknowledged.
\<close>

theorem ack_after_handler_witness:
  \<open>eventLoop example_lib example_ft
     [Received (Some frame_mint), Received (Some frame_pool)] [] =
     (False,
      [WsReceive frame_mint,
       Log LDebug ''Received %s event %s'',
       Log LInfo ''%s event data could not be parsed - continuing anyway (%s): %+v'',
       CallTokensTransferred
         \<lparr>xfer_PoolLocator = ''pool1'',
          xfer_TokenTransfer =
            \<lparr>tt_Type = TokenTransferTypeMint, tt_TokenIndex = [], tt_URI = [],
             tt_Connector = ''erc20'', tt_From = [], tt_To = ''0x02'', tt_Amount = 100,
             tt_Subject = ''s1'', tt_Key = ''0x01'', tt_Message = None,
             tt_MessageHash = None,
             tt_TX = \<lparr>ref_ID = None, ref_Type = ''token-transfer''\<rparr>\<rparr>,
          xfer_Event =
            \<lparr>ev_ProtocolID = [], ev_BlockchainTXID = [],
             ev_Source = ''fftokens:erc20'', ev_Name = [], ev_Output = Map.empty,
             ev_Location = [], ev_Signature = [], ev_Info = Map.empty,
             ev_Timestamp = Some (example_time + 3)\<rparr>\<rparr>,
       Log LDebug ''Sending ack %s'',
       WsSend ''{"data":{"id":"8"},"event":"ack"}'',
       WsReceive frame_pool,
       Log LDebug ''Received %s event %s'',
       Log LInfo ''TokenPool event data could not be parsed - continuing anyway (%s): %+v'',
       CallTokenPoolCreated
         \<lparr>tp_Type = ''fungible'', tp_PoolLocator = ''pool1'',
          tp_TX = \<lparr>ref_ID = None, ref_Type = ''token-pool''\<rparr>,
          tp_Connector = ''erc20'', tp_Standard = [], tp_Symbol = [],
          tp_Info = Map.empty, tp_Event = zero_Event\<rparr>,
       Log LDebug ''Sending ack %s'',
       WsSend ''{"data":{"id":"7"},"event":"ack"}'']) \<and>
   filter is_send
     (snd (eventLoop example_lib example_ft
             [Received (Some frame_mint), Received (Some frame_pool)] [])) =
     [WsSend ''{"data":{"id":"8"},"event":"ack"}'',
      WsSend (Marshal_JSONObject example_lib (ack_frame ''7''))] \<and>
   filter is_send
     (snd (eventLoop example_lib example_ft [Received (Some frame_receipt)] [])) = []\<close>
proof -
  let ?pool = "\<lparr>tp_Type = ''fungible'', tp_PoolLocator = ''pool1'',
          tp_TX = \<lparr>ref_ID = None, ref_Type = ''token-pool''\<rparr>,
          tp_Connector = ''erc20'', tp_Standard = [], tp_Symbol = [],
          tp_Info = Map.empty, tp_Event = zero_Event\<rparr>"
  let ?acts = "[Log LInfo ''TokenPool event data could not be parsed - continuing anyway (%s): %+v'',
       CallTokenPoolCreated ?pool]"
  let ?msg = "\<lparr>ws_Event = ''token-pool'', ws_ID = ''7'', ws_Data = pool_payload\<rparr>"
  let ?rcpt = "\<lparr>ws_Event = ''receipt'', ws_ID = ''r1'', ws_Data = receipt_payload\<rparr>"
  let ?first = \<open>[WsReceive frame_mint,
       Log LDebug ''Received %s event %s'',
       Log LInfo ''%s event data could not be parsed - continuing anyway (%s): %+v'',
       CallTokensTransferred
         \<lparr>xfer_PoolLocator = ''pool1'',
          xfer_TokenTransfer =
            \<lparr>tt_Type = TokenTransferTypeMint, tt_TokenIndex = [], tt_URI = [],
             tt_Connector = ''erc20'', tt_From = [], tt_To = ''0x02'', tt_Amount = 100,
             tt_Subject = ''s1'', tt_Key = ''0x01'', tt_Message = None,
             tt_MessageHash = None,
             tt_TX = \<lparr>ref_ID = None, ref_Type = ''token-transfer''\<rparr>\<rparr>,
          xfer_Event =
            \<lparr>ev_ProtocolID = [], ev_BlockchainTXID = [],
             ev_Source = ''fftokens:erc20'', ev_Name = [], ev_Output = Map.empty,
             ev_Location = [], ev_Signature = [], ev_Info = Map.empty,
             ev_Timestamp = Some (example_time + 3)\<rparr>\<rparr>,
       Log LDebug ''Sending ack %s'',
       WsSend ''{"data":{"id":"8"},"event":"ack"}'']\<close>
  let ?h = "?first @ [WsReceive frame_pool, Log LDebug ''Received %s event %s'']"
  have f: "eventLoop example_lib example_ft [Received (Some frame_mint)] [] = (False, ?first)"
    by (simp add: eventLoop_message_def dispatch_def handleTokenTransfer_def example_defs Let_def)
  have r: "\<not> fst (eventLoop example_lib example_ft [Received (Some frame_mint)] [])"
    by (subst f) simp
  have h: "?first = [] @ snd (eventLoop example_lib example_ft [Received (Some frame_mint)] [])"
    by (subst f) simp
  have u: "Unmarshal_wsEvent example_lib frame_pool = Some ?msg"
    by (simp add: example_defs)
  have d: "dispatch example_lib example_ft ?msg ?h = (None, ?acts)"
    by (simp add: dispatch_def handleTokenPoolCreate_def example_defs Let_def)
  have nr: "ws_Event ?msg \<noteq> messageReceipt" by (simp add: messageReceipt_def)
  have a7: \<open>Marshal_JSONObject example_lib (ack_frame ''7'') =
             ''{"data":{"id":"7"},"event":"ack"}''\<close>
    by (simp add: example_defs)
  have ok: "wsconn_Send example_ft x y = None" for x y
    by (simp add: example_ft_def)
  have m: "eventLoop_message example_lib example_ft frame_pool (?first @ [WsReceive frame_pool]) =
      (False, [Log LDebug ''Received %s event %s''] @ ?acts @
       [Log LDebug ''Sending ack %s'', WsSend (Marshal_JSONObject example_lib (ack_frame ''7''))])"
    using eventLoop_message_ack [OF u _ nr, of example_ft "?first @ [WsReceive frame_pool]" ?acts]
      d ok
    by simp
  have e: "eventLoop example_lib example_ft
      [Received (Some frame_mint), Received (Some frame_pool)] [] =
      (False, ?first @ [WsReceive frame_pool] @ [Log LDebug ''Received %s event %s''] @ ?acts @
       [Log LDebug ''Sending ack %s'', WsSend (Marshal_JSONObject example_lib (ack_frame ''7''))])"
    using eventLoop_append [of example_lib example_ft "[Received (Some frame_mint)]"
        "[Received (Some frame_pool)]" "[]"]
      eventLoop_continues [of example_lib example_ft frame_pool ?first "[]"]
    unfolding f m by simp
  have s: "filter is_send
     (snd (eventLoop example_lib example_ft
             [Received (Some frame_mint), Received (Some frame_pool)] [])) =
     filter is_send ?first @ [WsSend (Marshal_JSONObject example_lib (ack_frame ''7''))]"
    using ack_after_handler [OF r h u d] nr unfolding f by auto
  have u': "Unmarshal_wsEvent example_lib frame_receipt = Some ?rcpt"
    by (simp add: example_defs)
  obtain acts' where d': "dispatch example_lib example_ft ?rcpt
       ([] @ [WsReceive frame_receipt, Log LDebug ''Received %s event %s'']) = (None, acts')"
    by (simp add: dispatch_def messageReceipt_def)
  have r0: "\<not> fst (eventLoop example_lib example_ft [] [])" by simp
  have h0: "[] = [] @ snd (eventLoop example_lib example_ft [] [])" by simp
  have n: "filter is_send
     (snd (eventLoop example_lib example_ft [Received (Some frame_receipt)] [])) = []"
    using ack_after_handler [OF r0 h0 u' d'] by (auto simp add: messageReceipt_def)
  show ?thesis
    using e s n by (simp add: a7)
qed

subsection \<open>Leaving the loop\<close>



subsection \<open>Receipts\<close>

text \<open>
  C6. A receipt whose \<open>id\<close> is empty, or is not a UUID, is logged and dropped: the only
  action is one error log line. Otherwise the receipt-update callback is invoked with
  the parsed identifier, with "succeeded" when the success flag reads true and "failed"
  when not, and with the transaction hash, the message and the payload. In the loop a
  receipt frame is never acknowledged and never ends the loop.
\<close>

theorem receipt_handling:
  "(GetString lb data ''id'' = [] \<longrightarrow>
      handleReceipt lb data =
        [Log LError ''Reply cannot be processed - missing fields: %+v'']) \<and>
   (GetString lb data ''id'' \<noteq> [] \<and> ParseUUID lb (GetString lb data ''id'') = None \<longrightarrow>
      handleReceipt lb data = [Log LError ''Reply cannot be processed - bad ID: %+v'']) \<and>
   (\<forall>opID. GetString lb data ''id'' \<noteq> [] \<and>
           ParseUUID lb (GetString lb data ''id'') = Some opID \<longrightarrow>
      handleReceipt lb data =
        [Log LInfo ''Tokens %s reply: request=%s message=%s'',
         CallTokenOpUpdate opID
           (if GetBool lb data ''success'' then OpStatusSucceeded else OpStatusFailed)
           (GetString lb data ''transactionHash'') (GetString lb data ''message'') data]) \<and>
   (\<forall>msgBytes msg.
      Unmarshal_wsEvent lb msgBytes = Some msg \<and> ws_Event msg = messageReceipt \<and>
      ws_Data msg = data \<longrightarrow>
      eventLoop_message lb ft msgBytes hist =
        (False, Log LDebug ''Received %s event %s'' # handleReceipt lb data) \<and>
      filter is_send (snd (eventLoop_message lb ft msgBytes hist)) = [])"
proof (intro conjI allI impI)
  show "handleReceipt lb data = [Log LError ''Reply cannot be processed - missing fields: %+v'']"
    if "GetString lb data ''id'' = []"
    using that by (simp add: handleReceipt_def)
  show "handleReceipt lb data = [Log LError ''Reply cannot be processed - bad ID: %+v'']"
    if "GetString lb data ''id'' \<noteq> [] \<and> ParseUUID lb (GetString lb data ''id'') = None"
    using that by (simp add: handleReceipt_def)
  show "handleReceipt lb data =
        [Log LInfo ''Tokens %s reply: request=%s message=%s'',
         CallTokenOpUpdate opID
           (if GetBool lb data ''success'' then OpStatusSucceeded else OpStatusFailed)
           (GetString lb data ''transactionHash'') (GetString lb data ''message'') data]"
    if "GetString lb data ''id'' \<noteq> [] \<and> ParseUUID lb (GetString lb data ''id'') = Some opID"
    for opID
    using that by (simp add: handleReceipt_def)
next
  fix msgBytes msg
  assume a: "Unmarshal_wsEvent lb msgBytes = Some msg \<and> ws_Event msg = messageReceipt \<and>
      ws_Data msg = data"
  then have d: "dispatch lb ft msg (hist @ [Log LDebug ''Received %s event %s'']) =
                  (None, handleReceipt lb data)"
    by (simp add: dispatch_def)
  have m: "eventLoop_message lb ft msgBytes hist =
        (False, [Log LDebug ''Received %s event %s''] @ handleReceipt lb data)"
    using a by (intro eventLoop_message_no_ack [OF _ d]) simp_all
  then show "eventLoop_message lb ft msgBytes hist =
        (False, Log LDebug ''Received %s event %s'' # handleReceipt lb data)"
    by simp
  have "filter is_send (handleReceipt lb data) = []"
    using dispatch_sends_nothing [of lb ft msg "hist @ [Log LDebug ''Received %s event %s'']"] d
    by simp
  then show "filter is_send (snd (eventLoop_message lb ft msgBytes hist)) = []"
    using m by simp
qed

text \<open>
  The receipt of the specification's scenario (success true, hash \<open>0xabc\<close>) reaches the
  callback as "succeeded" and is not acknowledged; a receipt whose \<open>id\<close> is not a UUID,
  and one without \<open>id\<close>, are dropped.
\<close>

theorem receipt_handling_witness:
  "eventLoop_message example_lib example_ft frame_receipt [] =
     (False,
      [Log LDebug ''Received %s event %s'',
       Log LInfo ''Tokens %s reply: request=%s message=%s'',
       CallTokenOpUpdate example_uuid OpStatusSucceeded ''0xabc'' [] receipt_payload]) \<and>
   handleReceipt example_lib (receipt_payload(''id'' \<mapsto> JString ''r1'')) =
     [Log LError ''Reply cannot be processed - bad ID: %+v''] \<and>
   handleReceipt example_lib (receipt_payload(''id'' := None)) =
     [Log LError ''Reply cannot be processed - missing fields: %+v'']"
proof -
  let ?rcpt = "\<lparr>ws_Event = ''receipt'', ws_ID = ''r1'', ws_Data = receipt_payload\<rparr>"
  have u: "Unmarshal_wsEvent example_lib frame_receipt = Some ?rcpt"
    by (simp add: example_defs)
  have i: "GetString example_lib receipt_payload ''id'' = example_uuid_text"
    by (simp add: example_lib_def receipt_payload_def GetString_spec_def)
  have p: "ParseUUID example_lib example_uuid_text = Some example_uuid"
    by (simp add: example_lib_def)
  have ne: "example_uuid_text \<noteq> []"
    by (simp add: example_uuid_text_def)
  have g: "GetBool example_lib receipt_payload ''success'' \<and>
           GetString example_lib receipt_payload ''transactionHash'' = ''0xabc'' \<and>
           GetString example_lib receipt_payload ''message'' = []"
    by (simp add: example_lib_def receipt_payload_def GetString_spec_def GetBool_spec_def)
  note t = receipt_handling [of example_lib receipt_payload example_ft "[]"]
  have h: "handleReceipt example_lib receipt_payload =
           [Log LInfo ''Tokens %s reply: request=%s message=%s'',
            CallTokenOpUpdate example_uuid OpStatusSucceeded ''0xabc'' [] receipt_payload]"
    using t [THEN conjunct2, THEN conjunct2, THEN conjunct1, rule_format, of example_uuid]
      i p ne g
    by simp
  have m: "eventLoop_message example_lib example_ft frame_receipt [] =
           (False, Log LDebug ''Received %s event %s'' # handleReceipt example_lib receipt_payload)"
    using t [THEN conjunct2, THEN conjunct2, THEN conjunct2, rule_format, of frame_receipt ?rcpt] u
    by (simp add: messageReceipt_def)
  have b: "handleReceipt example_lib (receipt_payload(''id'' \<mapsto> JString ''r1'')) =
     [Log LError ''Reply cannot be processed - bad ID: %+v'']"
    using receipt_handling [of example_lib "receipt_payload(''id'' \<mapsto> JString ''r1'')" example_ft "[]",
        THEN conjunct2, THEN conjunct1]
    by (simp add: example_lib_def GetString_spec_def example_uuid_text_def)
  have c: "handleReceipt example_lib (receipt_payload(''id'' := None)) =
     [Log LError ''Reply cannot be processed - missing fields: %+v'']"
    using receipt_handling [of example_lib "receipt_payload(''id'' := None)" example_ft "[]",
        THEN conjunct1]
    by (simp add: example_lib_def GetString_spec_def)
  show ?thesis
    using m h b c by simp
qed

subsection \<open>Pool events\<close>

text \<open>
  C7. A pool event whose type or pool locator is empty is skipped: no error, and one
  error log line as the only action. Otherwise the pool-created callback receives a
  record, after log lines at most, and the record carries an on-chain event exactly
  when the protocol identifier or the transaction hash read from the blockchain
  sub-object is not empty: then the event holds both, and otherwise (whether or not
  the sub-object is there) the event is the zero value.
\<close>

theorem pool_create_event_gating:
  "(GetString lb data ''type'' = [] \<or> GetString lb data ''poolLocator'' = [] \<longrightarrow>
      handleTokenPoolCreate lb ft data hist =
        (None, [Log LError ''TokenPool event is not valid - missing data: %+v''])) \<and>
   (GetString lb data ''type'' \<noteq> [] \<and> GetString lb data ''poolLocator'' \<noteq> [] \<longrightarrow>
      (\<exists>pool logs.
         handleTokenPoolCreate lb ft data hist =
           (TokenPoolCreated (callbacks ft) (hist @ logs) pool,
            logs @ [CallTokenPoolCreated pool]) \<and>
         list_all is_log logs \<and>
         tp_Type pool = GetString lb data ''type'' \<and>
         tp_PoolLocator pool = GetString lb data ''poolLocator'' \<and>
         (if GetString lb (GetObject lb data ''blockchain'') ''id'' \<noteq> [] \<or>
             GetString lb (GetObject lb (GetObject lb data ''blockchain'') ''info'')
               ''transactionHash'' \<noteq> []
          then tp_Event pool \<noteq> zero_Event \<and>
               ev_ProtocolID (tp_Event pool) =
                 GetString lb (GetObject lb data ''blockchain'') ''id'' \<and>
               ev_BlockchainTXID (tp_Event pool) =
                 GetString lb (GetObject lb (GetObject lb data ''blockchain'') ''info'')
                   ''transactionHash''
          else tp_Event pool = zero_Event)))"
proof (intro conjI impI)
  assume "GetString lb data ''type'' = [] \<or> GetString lb data ''poolLocator'' = []"
  then show "handleTokenPoolCreate lb ft data hist =
        (None, [Log LError ''TokenPool event is not valid - missing data: %+v''])"
    by (auto simp add: handleTokenPoolCreate_def Let_def)
next
  assume a: "GetString lb data ''type'' \<noteq> [] \<and> GetString lb data ''poolLocator'' \<noteq> []"
  show "\<exists>pool logs.
         handleTokenPoolCreate lb ft data hist =
           (TokenPoolCreated (callbacks ft) (hist @ logs) pool,
            logs @ [CallTokenPoolCreated pool]) \<and>
         list_all is_log logs \<and>
         tp_Type pool = GetString lb data ''type'' \<and>
         tp_PoolLocator pool = GetString lb data ''poolLocator'' \<and>
         (if GetString lb (GetObject lb data ''blockchain'') ''id'' \<noteq> [] \<or>
             GetString lb (GetObject lb (GetObject lb data ''blockchain'') ''info'')
               ''transactionHash'' \<noteq> []
          then tp_Event pool \<noteq> zero_Event \<and>
               ev_ProtocolID (tp_Event pool) =
                 GetString lb (GetObject lb data ''blockchain'') ''id'' \<and>
               ev_BlockchainTXID (tp_Event pool) =
                 GetString lb (GetObject lb (GetObject lb data ''blockchain'') ''info'')
                   ''transactionHash''
          else tp_Event pool = zero_Event)"
  proof (cases "GetString lb (GetObject lb data ''blockchain'') ''id'' \<noteq> [] \<or>
             GetString lb (GetObject lb (GetObject lb data ''blockchain'') ''info'')
               ''transactionHash'' \<noteq> []")
    case True
    with a show ?thesis
      unfolding handleTokenPoolCreate_def Let_def
      by (auto simp add: zero_Event_def)
  next
    case False
    with a show ?thesis
      unfolding handleTokenPoolCreate_def Let_def
      by (auto simp add: zero_Event_def)
  qed
qed

text \<open>
  A pool event without \<open>poolLocator\<close> is skipped. A pool event whose blockchain
  sub-object has neither \<open>id\<close> nor a transaction hash yields a record with the zero event;
  with an \<open>id\<close> and a timestamp, the record carries the event.
\<close>

theorem pool_create_event_gating_witness:
  "handleTokenPoolCreate example_lib example_ft (pool_payload(''poolLocator'' := None)) [] =
     (None, [Log LError ''TokenPool event is not valid - missing data: %+v'']) \<and>
   handleTokenPoolCreate example_lib example_ft
       (pool_payload(''blockchain'' \<mapsto> JObject [''name'' \<mapsto> JString ''TokenPoolCreation''])) [] =
     (None,
      [Log LInfo ''TokenPool event data could not be parsed - continuing anyway (%s): %+v'',
       CallTokenPoolCreated
         \<lparr>tp_Type = ''fungible'', tp_PoolLocator = ''pool1'',
          tp_TX = \<lparr>ref_ID = None, ref_Type = ''token-pool''\<rparr>,
          tp_Connector = ''erc20'', tp_Standard = [], tp_Symbol = [],
          tp_Info = Map.empty, tp_Event = zero_Event\<rparr>]) \<and>
   handleTokenPoolCreate example_lib example_ft
       (pool_payload(''blockchain'' \<mapsto>
          JObject [''id'' \<mapsto> JString ''000000000010/000020/000030'',
                   ''timestamp'' \<mapsto> JString ''2022-03-01T12:00:00Z''])) [] =
     (None,
      [Log LInfo ''TokenPool event data could not be parsed - continuing anyway (%s): %+v'',
       CallTokenPoolCreated
         \<lparr>tp_Type = ''fungible'', tp_PoolLocator = ''pool1'',
          tp_TX = \<lparr>ref_ID = None, ref_Type = ''token-pool''\<rparr>,
          tp_Connector = ''erc20'', tp_Standard = [], tp_Symbol = [],
          tp_Info = Map.empty,
          tp_Event =
            \<lparr>ev_ProtocolID = ''000000000010/000020/000030'', ev_BlockchainTXID = [],
             ev_Source = ''fftokens:erc20'', ev_Name = [], ev_Output = Map.empty,
             ev_Location = [], ev_Signature = [], ev_Info = Map.empty,
             ev_Timestamp = Some example_time\<rparr>\<rparr>])"
  using pool_create_event_gating
          [of example_lib "pool_payload(''poolLocator'' := None)" example_ft "[]"]
        pool_create_event_gating
          [of example_lib
              "pool_payload(''blockchain'' \<mapsto> JObject [''name'' \<mapsto> JString ''TokenPoolCreation''])"
              example_ft "[]"]
  by (simp add: handleTokenPoolCreate_def example_defs Let_def)

subsection \<open>Approval events\<close>



subsection \<open>The on-chain event of transfers and approvals\<close>

text \<open>
  C10. A transfer event with its required fields and a parseable amount, and an
  approval event with its required fields, reach their callback with a record whose
  on-chain event is always filled in, with no condition on the blockchain sub-object:
  the event is never the zero value, its source is \<open>fftokens:\<close> followed by the
  configured name, and its timestamp is the parsed payload timestamp, or the clock when
  that does not parse.
\<close>

theorem transfer_and_approval_event_unconditional:
  "(\<forall>amount.
      transfer_required_fields lb t data \<and>
      SetString10 (GetString lb data ''amount'') = Some amount \<longrightarrow>
      (\<exists>transfer logs.
         handleTokenTransfer lb ft t data hist =
           (TokensTransferred (callbacks ft) (hist @ logs) transfer,
            logs @ [CallTokensTransferred transfer]) \<and>
         list_all is_log logs \<and>
         xfer_Event transfer \<noteq> zero_Event \<and>
         ev_Source (xfer_Event transfer) = ''fftokens:'' @ configuredName ft \<and>
         ev_Timestamp (xfer_Event transfer) =
           Some (case ParseTimeString lb
                        (GetString lb (GetObject lb data ''blockchain'') ''timestamp'') of
                   Some ts \<Rightarrow> ts | None \<Rightarrow> Now lb hist))) \<and>
   (approval_required_fields lb data \<longrightarrow>
      (\<exists>approval logs.
         handleTokenApproval lb ft data hist =
           (TokensApproved (callbacks ft) (hist @ logs) approval,
            logs @ [CallTokensApproved approval]) \<and>
         list_all is_log logs \<and>
         appr_Event approval \<noteq> zero_Event \<and>
         ev_Source (appr_Event approval) = ''fftokens:'' @ configuredName ft \<and>
         ev_Timestamp (appr_Event approval) =
           Some (case ParseTimeString lb
                        (GetString lb (GetObject lb data ''blockchain'') ''timestamp'') of
                   Some ts \<Rightarrow> ts | None \<Rightarrow> Now lb hist)))"
proof (intro conjI allI impI)
  fix amount
  assume "transfer_required_fields lb t data \<and>
      SetString10 (GetString lb data ''amount'') = Some amount"
  then show "\<exists>transfer logs.
         handleTokenTransfer lb ft t data hist =
           (TokensTransferred (callbacks ft) (hist @ logs) transfer,
            logs @ [CallTokensTransferred transfer]) \<and>
         list_all is_log logs \<and>
         xfer_Event transfer \<noteq> zero_Event \<and>
         ev_Source (xfer_Event transfer) = ''fftokens:'' @ configuredName ft \<and>
         ev_Timestamp (xfer_Event transfer) =
           Some (case ParseTimeString lb
                        (GetString lb (GetObject lb data ''blockchain'') ''timestamp'') of
                   Some ts \<Rightarrow> ts | None \<Rightarrow> Now lb hist)"
    unfolding handleTokenTransfer_def transfer_required_fields_def Let_def
    by (auto simp add: zero_Event_def Name_def)
next
  assume "approval_required_fields lb data"
  then show "\<exists>approval logs.
         handleTokenApproval lb ft data hist =
           (TokensApproved (callbacks ft) (hist @ logs) approval,
            logs @ [CallTokensApproved approval]) \<and>
         list_all is_log logs \<and>
         appr_Event approval \<noteq> zero_Event \<and>
         ev_Source (appr_Event approval) = ''fftokens:'' @ configuredName ft \<and>
         ev_Timestamp (appr_Event approval) =
           Some (case ParseTimeString lb
                        (GetString lb (GetObject lb data ''blockchain'') ''timestamp'') of
                   Some ts \<Rightarrow> ts | None \<Rightarrow> Now lb hist)"
    unfolding handleTokenApproval_def approval_required_fields_def Let_def
    by (auto simp add: zero_Event_def Name_def)
qed

text \<open>
  A mint event without a blockchain sub-object is delivered with an event stamped by the
  clock; an approval event whose sub-object holds only a timestamp is delivered with an
  event stamped by it.
\<close>

theorem transfer_and_approval_event_unconditional_witness:
  "transfer_required_fields example_lib TokenTransferTypeMint mint_payload \<and>
   SetString10 (GetString example_lib mint_payload ''amount'') = Some 100 \<and>
   (\<exists>transfer logs.
      handleTokenTransfer example_lib example_ft TokenTransferTypeMint mint_payload [] =
        (None, logs @ [CallTokensTransferred transfer]) \<and>
      xfer_Event transfer \<noteq> zero_Event) \<and>
   handleTokenTransfer example_lib example_ft TokenTransferTypeMint mint_payload [] =
     (None,
      [Log LInfo ''%s event data could not be parsed - continuing anyway (%s): %+v'',
       CallTokensTransferred
         \<lparr>xfer_PoolLocator = ''pool1'',
          xfer_TokenTransfer =
            \<lparr>tt_Type = TokenTransferTypeMint, tt_TokenIndex = [], tt_URI = [],
             tt_Connector = ''erc20'', tt_From = [], tt_To = ''0x02'', tt_Amount = 100,
             tt_Subject = ''s1'', tt_Key = ''0x01'', tt_Message = None,
             tt_MessageHash = None,
             tt_TX = \<lparr>ref_ID = None, ref_Type = ''token-transfer''\<rparr>\<rparr>,
          xfer_Event =
            \<lparr>ev_ProtocolID = [], ev_BlockchainTXID = [],
             ev_Source = ''fftokens:erc20'', ev_Name = [], ev_Output = Map.empty,
             ev_Location = [], ev_Signature = [], ev_Info = Map.empty,
             ev_Timestamp = Some (example_time + 1)\<rparr>\<rparr>]) \<and>
   approval_required_fields example_lib
     (approval_payload(''blockchain'' \<mapsto>
        JObject [''timestamp'' \<mapsto> JString ''2022-03-01T12:00:00Z''])) \<and>
   handleTokenApproval example_lib example_ft
       (approval_payload(''blockchain'' \<mapsto>
          JObject [''timestamp'' \<mapsto> JString ''2022-03-01T12:00:00Z''])) [] =
     (None,
      [Log LInfo ''TokenApproval event data could not be parsed - continuing anyway (%s): %+v'',
       CallTokensApproved
         \<lparr>appr_PoolLocator = ''pool1'',
          appr_TokenApproval =
            \<lparr>ta_Connector = ''erc20'', ta_Key = ''0x01'', ta_Operator = ''0x03'',
             ta_Approved = False, ta_Subject = ''s2'',
             ta_TX = \<lparr>ref_ID = None, ref_Type = ''token-approval''\<rparr>,
             ta_Config = Map.empty\<rparr>,
          appr_Event =
            \<lparr>ev_ProtocolID = [], ev_BlockchainTXID = [],
             ev_Source = ''fftokens:erc20'', ev_Name = [], ev_Output = Map.empty,
             ev_Location = [], ev_Signature = [], ev_Info = Map.empty,
             ev_Timestamp = Some example_time\<rparr>\<rparr>]) \<and>
   (\<exists>approval logs.
      handleTokenApproval example_lib example_ft
          (approval_payload(''blockchain'' \<mapsto>
             JObject [''timestamp'' \<mapsto> JString ''2022-03-01T12:00:00Z''])) [] =
        (None, logs @ [CallTokensApproved approval]) \<and>
      appr_Event approval \<noteq> zero_Event)"
proof -
  let ?a = "approval_payload(''blockchain'' \<mapsto>
        JObject [''timestamp'' \<mapsto> JString ''2022-03-01T12:00:00Z''])"
  have r: "transfer_required_fields example_lib TokenTransferTypeMint mint_payload"
    by (simp add: transfer_required_fields_def example_lib_def mint_payload_def
          GetString_spec_def)
  have s: "SetString10 (GetString example_lib mint_payload ''amount'') = Some 100"
    by (simp add: example_defs)
  have c: "TokensTransferred (callbacks example_ft) h a = None" for h a
    by (simp add: example_ft_def)
  have e: "\<exists>transfer logs.
      handleTokenTransfer example_lib example_ft TokenTransferTypeMint mint_payload [] =
        (None, logs @ [CallTokensTransferred transfer]) \<and>
      xfer_Event transfer \<noteq> zero_Event"
    using transfer_and_approval_event_unconditional
            [of example_lib TokenTransferTypeMint mint_payload example_ft "[]",
             THEN conjunct1, rule_format, of 100]
          r s c
    by auto
  have x: "handleTokenTransfer example_lib example_ft TokenTransferTypeMint mint_payload [] =
     (None,
      [Log LInfo ''%s event data could not be parsed - continuing anyway (%s): %+v'',
       CallTokensTransferred
         \<lparr>xfer_PoolLocator = ''pool1'',
          xfer_TokenTransfer =
            \<lparr>tt_Type = TokenTransferTypeMint, tt_TokenIndex = [], tt_URI = [],
             tt_Connector = ''erc20'', tt_From = [], tt_To = ''0x02'', tt_Amount = 100,
             tt_Subject = ''s1'', tt_Key = ''0x01'', tt_Message = None,
             tt_MessageHash = None,
             tt_TX = \<lparr>ref_ID = None, ref_Type = ''token-transfer''\<rparr>\<rparr>,
          xfer_Event =
            \<lparr>ev_ProtocolID = [], ev_BlockchainTXID = [],
             ev_Source = ''fftokens:erc20'', ev_Name = [], ev_Output = Map.empty,
             ev_Location = [], ev_Signature = [], ev_Info = Map.empty,
             ev_Timestamp = Some (example_time + 1)\<rparr>\<rparr>])"
    by (simp add: handleTokenTransfer_def example_defs Let_def)
  have ra: "approval_required_fields example_lib ?a"
    by (simp add: approval_required_fields_def example_lib_def approval_payload_def
          GetString_spec_def)
  have y: "handleTokenApproval example_lib example_ft ?a [] =
     (None,
      [Log LInfo ''TokenApproval event data could not be parsed - continuing anyway (%s): %+v'',
       CallTokensApproved
         \<lparr>appr_PoolLocator = ''pool1'',
          appr_TokenApproval =
            \<lparr>ta_Connector = ''erc20'', ta_Key = ''0x01'', ta_Operator = ''0x03'',
             ta_Approved = False, ta_Subject = ''s2'',
             ta_TX = \<lparr>ref_ID = None, ref_Type = ''token-approval''\<rparr>,
             ta_Config = Map.empty\<rparr>,
          appr_Event =
            \<lparr>ev_ProtocolID = [], ev_BlockchainTXID = [],
             ev_Source = ''fftokens:erc20'', ev_Name = [], ev_Output = Map.empty,
             ev_Location = [], ev_Signature = [], ev_Info = Map.empty,
             ev_Timestamp = Some example_time\<rparr>\<rparr>])"
    by (simp add: handleTokenApproval_def example_defs Let_def)
  have c': "TokensApproved (callbacks example_ft) h a = None" for h a
    by (simp add: example_ft_def)
  have e': "\<exists>approval logs.
      handleTokenApproval example_lib example_ft ?a [] =
        (None, logs @ [CallTokensApproved approval]) \<and>
      appr_Event approval \<noteq> zero_Event"
    using transfer_and_approval_event_unconditional
            [of example_lib TokenTransferTypeMint ?a example_ft "[]", THEN conjunct2]
          ra c'
    by auto
  show ?thesis
    using r s e x ra y e' by blast
qed

subsection \<open>The correlation data of a pool, there and back\<close>




subsection \<open>Synchronous completion\<close>

lemma CreateTokenPool_result:
  assumes "\<And>h p b. client_Post ft h p b = (res, err)"
  shows "\<exists>post.
           CreateTokenPool lb ft opID pool hist =
             (if err \<noteq> None \<or> \<not> IsSuccess res then ((False, Some (TokensRESTErr res err)), [post])
              else if StatusCode res = 200 then
                (case Unmarshal_JSONObject lb (Body res) of
                   None \<Rightarrow> ((False, Some (JSONObjectParseFailed (Body res))), [post])
                 | Some obj \<Rightarrow>
                     ((True, fst (handleTokenPoolCreate lb ft obj (hist @ [post]))),
                      post # snd (handleTokenPoolCreate lb ft obj (hist @ [post]))))
              else ((False, None), [post])) \<and>
           \<not> is_callback post"
  unfolding CreateTokenPool_def Let_def assms
  by (auto simp add: case_prod_beta split: option.splits)

lemma ActivateTokenPool_result:
  assumes "\<And>h p b. client_Post ft h p b = (res, err)"
  shows "\<exists>post.
           ActivateTokenPool lb ft opID pool hist =
             (if err \<noteq> None \<or> \<not> IsSuccess res then ((False, Some (TokensRESTErr res err)), [post])
              else if StatusCode res = 200 then
                (case Unmarshal_JSONObject lb (Body res) of
                   None \<Rightarrow> ((False, Some (JSONObjectParseFailed (Body res))), [post])
                 | Some obj \<Rightarrow>
                     ((True, fst (handleTokenPoolCreate lb ft obj (hist @ [post]))),
                      post # snd (handleTokenPoolCreate lb ft obj (hist @ [post]))))
              else ((False, None), [post])) \<and>
           \<not> is_callback post"
  unfolding ActivateTokenPool_def Let_def assms
  by (auto simp add: case_prod_beta split: option.splits)

lemma status_200_IsSuccess: "StatusCode res = 200 \<Longrightarrow> IsSuccess res"
  by (simp add: IsSuccess_def)

text \<open>
  C8 (completion needs a status 200 and a body that decodes). Let every POST be
  answered by the response \<open>res\<close> and the transport error \<open>err\<close>. The two pool operations return complete = true exactly when there is no
  transport error, the status is 200 and the body decodes as a JSON object; the body
  then goes through the pool-create handler, whose error is returned. They return the
  wrapped transport error on a transport error or a status outside 200..299, the
  wrapped decoding error (and complete = false) on a status 200 whose body does not
  decode, and complete = false without error on any other status from 200 to 299. The
  mint, burn, transfer and approval operations return an error value only: the wrapped
  transport error in the same cases, nil otherwise, and their only action is the POST.
\<close>

theorem completion_only_for_pool_operations:
  assumes "\<And>h p b. client_Post ft h p b = (res, err)"
  shows "(\<forall>operation \<in> {CreateTokenPool, ActivateTokenPool}.
            (fst (fst (operation lb ft opID pool hist)) \<longleftrightarrow>
               err = None \<and> StatusCode res = 200 \<and> Unmarshal_JSONObject lb (Body res) \<noteq> None) \<and>
            (err \<noteq> None \<or> \<not> IsSuccess res \<longrightarrow>
               fst (operation lb ft opID pool hist) = (False, Some (TokensRESTErr res err))) \<and>
            (err = None \<and> IsSuccess res \<and> StatusCode res \<noteq> 200 \<longrightarrow>
               fst (operation lb ft opID pool hist) = (False, None)) \<and>
            (err = None \<and> StatusCode res = 200 \<and> Unmarshal_JSONObject lb (Body res) = None \<longrightarrow>
               fst (operation lb ft opID pool hist) =
                 (False, Some (JSONObjectParseFailed (Body res)))) \<and>
            (\<forall>obj. err = None \<and> StatusCode res = 200 \<and>
                   Unmarshal_JSONObject lb (Body res) = Some obj \<longrightarrow>
               (\<exists>post. \<not> is_callback post \<and>
                  operation lb ft opID pool hist =
                    ((True, fst (handleTokenPoolCreate lb ft obj (hist @ [post]))),
                     post # snd (handleTokenPoolCreate lb ft obj (hist @ [post])))))) \<and>
         (\<forall>operation \<in> {MintTokens, BurnTokens, TransferTokens}.
            fst (operation lb ft opID poolLocator transfer hist) =
              (if err \<noteq> None \<or> \<not> IsSuccess res then Some (TokensRESTErr res err) else None) \<and>
            length (snd (operation lb ft opID poolLocator transfer hist)) = 1 \<and>
            filter is_callback (snd (operation lb ft opID poolLocator transfer hist)) = []) \<and>
         fst (TokensApproval lb ft opID poolLocator approval hist) =
           (if err \<noteq> None \<or> \<not> IsSuccess res then Some (TokensRESTErr res err) else None) \<and>
         length (snd (TokensApproval lb ft opID poolLocator approval hist)) = 1 \<and>
         filter is_callback (snd (TokensApproval lb ft opID poolLocator approval hist)) = []"
proof -
  have pool_op:
    "(fst (fst r) \<longleftrightarrow>
        err = None \<and> StatusCode res = 200 \<and> Unmarshal_JSONObject lb (Body res) \<noteq> None) \<and>
     (err \<noteq> None \<or> \<not> IsSuccess res \<longrightarrow> fst r = (False, Some (TokensRESTErr res err))) \<and>
     (err = None \<and> IsSuccess res \<and> StatusCode res \<noteq> 200 \<longrightarrow> fst r = (False, None)) \<and>
     (err = None \<and> StatusCode res = 200 \<and> Unmarshal_JSONObject lb (Body res) = None \<longrightarrow>
        fst r = (False, Some (JSONObjectParseFailed (Body res)))) \<and>
     (\<forall>obj. err = None \<and> StatusCode res = 200 \<and>
            Unmarshal_JSONObject lb (Body res) = Some obj \<longrightarrow>
        (\<exists>post. \<not> is_callback post \<and>
           r = ((True, fst (handleTokenPoolCreate lb ft obj (hist @ [post]))),
                post # snd (handleTokenPoolCreate lb ft obj (hist @ [post])))))"
    if "\<exists>post.
           r =
             (if err \<noteq> None \<or> \<not> IsSuccess res then ((False, Some (TokensRESTErr res err)), [post])
              else if StatusCode res = 200 then
                (case Unmarshal_JSONObject lb (Body res) of
                   None \<Rightarrow> ((False, Some (JSONObjectParseFailed (Body res))), [post])
                 | Some obj \<Rightarrow>
                     ((True, fst (handleTokenPoolCreate lb ft obj (hist @ [post]))),
                      post # snd (handleTokenPoolCreate lb ft obj (hist @ [post]))))
              else ((False, None), [post])) \<and>
           \<not> is_callback post"
    for r
    using that status_200_IsSuccess [of res]
    by (cases "Unmarshal_JSONObject lb (Body res)") (auto split: if_splits)
  have 1: "\<forall>operation \<in> {CreateTokenPool, ActivateTokenPool}.
            (fst (fst (operation lb ft opID pool hist)) \<longleftrightarrow>
               err = None \<and> StatusCode res = 200 \<and> Unmarshal_JSONObject lb (Body res) \<noteq> None) \<and>
            (err \<noteq> None \<or> \<not> IsSuccess res \<longrightarrow>
               fst (operation lb ft opID pool hist) = (False, Some (TokensRESTErr res err))) \<and>
            (err = None \<and> IsSuccess res \<and> StatusCode res \<noteq> 200 \<longrightarrow>
               fst (operation lb ft opID pool hist) = (False, None)) \<and>
            (err = None \<and> StatusCode res = 200 \<and> Unmarshal_JSONObject lb (Body res) = None \<longrightarrow>
               fst (operation lb ft opID pool hist) =
                 (False, Some (JSONObjectParseFailed (Body res)))) \<and>
            (\<forall>obj. err = None \<and> StatusCode res = 200 \<and>
                   Unmarshal_JSONObject lb (Body res) = Some obj \<longrightarrow>
               (\<exists>post. \<not> is_callback post \<and>
                  operation lb ft opID pool hist =
                    ((True, fst (handleTokenPoolCreate lb ft obj (hist @ [post]))),
                     post # snd (handleTokenPoolCreate lb ft obj (hist @ [post])))))"
    using pool_op [OF CreateTokenPool_result [OF assms, of lb opID pool hist]]
          pool_op [OF ActivateTokenPool_result [OF assms, of lb opID pool hist]]
    by blast
  have 2: "\<forall>operation \<in> {MintTokens, BurnTokens, TransferTokens}.
            fst (operation lb ft opID poolLocator transfer hist) =
              (if err \<noteq> None \<or> \<not> IsSuccess res then Some (TokensRESTErr res err) else None) \<and>
            length (snd (operation lb ft opID poolLocator transfer hist)) = 1 \<and>
            filter is_callback (snd (operation lb ft opID poolLocator transfer hist)) = []"
    by (simp add: MintTokens_def BurnTokens_def TransferTokens_def Let_def assms)
  have 3: "fst (TokensApproval lb ft opID poolLocator approval hist) =
           (if err \<noteq> None \<or> \<not> IsSuccess res then Some (TokensRESTErr res err) else None) \<and>
         length (snd (TokensApproval lb ft opID poolLocator approval hist)) = 1 \<and>
         filter is_callback (snd (TokensApproval lb ft opID poolLocator approval hist)) = []"
    by (simp add: TokensApproval_def Let_def assms)
  show ?thesis
    using 1 2 3 by blast
qed

text \<open>
  A status 200 with the pool as its body completes the creation and delivers the pool;
  a status 202 leaves it pending; a status 500 is a transport error; a mint answered by
  202 returns nil.
\<close>

theorem completion_only_for_pool_operations_witness:
  "CreateTokenPool example_lib
     (example_ft\<lparr>client_Post :=
        (\<lambda>hist path body. (\<lparr>StatusCode = 200, Body = pool_response_text\<rparr>, None))\<rparr>)
     (Some example_uuid) example_pool [] =
     ((True, None),
      [HttpPost ''/api/v1/createpool''
         (createPool ''fungible'' example_uuid_text ''0x01'' pool_echo_text Map.empty
            ''pool'' ''PL''),
       Log LInfo ''TokenPool event data could not be parsed - continuing anyway (%s): %+v'',
       CallTokenPoolCreated
         \<lparr>tp_Type = ''fungible'', tp_PoolLocator = ''pool1'',
          tp_TX = \<lparr>ref_ID = None, ref_Type = ''token-pool''\<rparr>,
          tp_Connector = ''erc20'', tp_Standard = [], tp_Symbol = [],
          tp_Info = Map.empty, tp_Event = zero_Event\<rparr>]) \<and>
   fst (CreateTokenPool example_lib example_ft (Some example_uuid) example_pool []) =
     (False, None) \<and>
   fst (ActivateTokenPool example_lib
          (example_ft\<lparr>client_Post :=
             (\<lambda>hist path body. (\<lparr>StatusCode = 500, Body = []\<rparr>, None))\<rparr>)
          (Some example_uuid) example_pool []) =
     (False, Some (TokensRESTErr \<lparr>StatusCode = 500, Body = []\<rparr> None)) \<and>
   MintTokens example_lib example_ft (Some example_uuid) ''pool1''
     \<lparr>tt_Type = TokenTransferTypeMint, tt_TokenIndex = [], tt_URI = [], tt_Connector = [],
      tt_From = [], tt_To = ''0x02'', tt_Amount = 100, tt_Subject = [], tt_Key = ''0x01'',
      tt_Message = None, tt_MessageHash = None,
      tt_TX = \<lparr>ref_ID = None, ref_Type = []\<rparr>\<rparr> [] =
     (None,
      [HttpPost ''/api/v1/mint''
         (mintTokens ''pool1'' [] ''0x02'' ''100'' example_uuid_text ''0x01'' ''{}'')])"
proof -
  let ?ft200 = "example_ft\<lparr>client_Post :=
        (\<lambda>hist path body. (\<lparr>StatusCode = 200, Body = pool_response_text\<rparr>, None))\<rparr>"
  let ?ft500 = "example_ft\<lparr>client_Post :=
             (\<lambda>hist path body. (\<lparr>StatusCode = 500, Body = []\<rparr>, None))\<rparr>"
  have a: "CreateTokenPool example_lib ?ft200 (Some example_uuid) example_pool [] =
     ((True, None),
      [HttpPost ''/api/v1/createpool''
         (createPool ''fungible'' example_uuid_text ''0x01'' pool_echo_text Map.empty
            ''pool'' ''PL''),
       Log LInfo ''TokenPool event data could not be parsed - continuing anyway (%s): %+v'',
       CallTokenPoolCreated
         \<lparr>tp_Type = ''fungible'', tp_PoolLocator = ''pool1'',
          tp_TX = \<lparr>ref_ID = None, ref_Type = ''token-pool''\<rparr>,
          tp_Connector = ''erc20'', tp_Standard = [], tp_Symbol = [],
          tp_Info = Map.empty, tp_Event = zero_Event\<rparr>])"
    by (simp add: CreateTokenPool_def handleTokenPoolCreate_def example_defs Let_def)
  have p202: "client_Post example_ft h p b = (\<lparr>StatusCode = 202, Body = []\<rparr>, None)" for h p b
    by (simp add: example_ft_def)
  have p500: "client_Post ?ft500 h p b = (\<lparr>StatusCode = 500, Body = []\<rparr>, None)" for h p b
    by (simp add: example_ft_def)
  have b: "fst (CreateTokenPool example_lib example_ft (Some example_uuid) example_pool []) =
     (False, None)"
    using completion_only_for_pool_operations
            [OF p202, of example_lib "Some example_uuid" example_pool "[]", THEN conjunct1]
    by (simp add: IsSuccess_def)
  have c: "fst (ActivateTokenPool example_lib ?ft500 (Some example_uuid) example_pool []) =
     (False, Some (TokensRESTErr \<lparr>StatusCode = 500, Body = []\<rparr> None))"
    using completion_only_for_pool_operations
            [OF p500, of example_lib "Some example_uuid" example_pool "[]", THEN conjunct1]
    by (simp add: IsSuccess_def)
  have d: "MintTokens example_lib example_ft (Some example_uuid) ''pool1''
     \<lparr>tt_Type = TokenTransferTypeMint, tt_TokenIndex = [], tt_URI = [], tt_Connector = [],
      tt_From = [], tt_To = ''0x02'', tt_Amount = 100, tt_Subject = [], tt_Key = ''0x01'',
      tt_Message = None, tt_MessageHash = None,
      tt_TX = \<lparr>ref_ID = None, ref_Type = []\<rparr>\<rparr> [] =
     (None,
      [HttpPost ''/api/v1/mint''
         (mintTokens ''pool1'' [] ''0x02'' ''100'' example_uuid_text ''0x01'' ''{}'')])"
    by (simp add: MintTokens_def example_defs Let_def)
  show ?thesis
    using a b c d by blast
qed

text \<open>
  A status 200 alone does not complete the operation: when the body is not a JSON
  object (here the empty body), the operation returns complete = false, with the
  decoding error.
\<close>

theorem completion_only_for_pool_operations_counterexample:
  "StatusCode \<lparr>StatusCode = 200, Body = []\<rparr> = 200 \<and>
   CreateTokenPool example_lib
     (example_ft\<lparr>client_Post := (\<lambda>hist path body. (\<lparr>StatusCode = 200, Body = []\<rparr>, None))\<rparr>)
     (Some example_uuid) example_pool [] =
     ((False, Some (JSONObjectParseFailed [])),
      [HttpPost ''/api/v1/createpool''
         (createPool ''fungible'' example_uuid_text ''0x01'' pool_echo_text Map.empty
            ''pool'' ''PL'')])"
  by (simp add: CreateTokenPool_def example_defs Let_def)

end
